theory Spec2Isabelle
  imports Complex_Main
begin

section \<open>JavaScript values, commands and the command runner\<close>

text \<open>
  The docker provider (\<^verbatim>\<open>apps/docker-provider/src/index.ts\<close>) drives the container
  runtime through \<^verbatim>\<open>execa\<close>.  A value that is thrown or logged is an untyped
  JavaScript value; an object is the list of its properties.
\<close>

datatype js_value =
    JUndefined
  | JNull
  | JBool bool
  | JNum int
  | JStr string
  | JObj "(string \<times> js_value) list"

text \<open>Property access \<^verbatim>\<open>v.k\<close> and \<^verbatim>\<open>v?.k\<close> on a value that is not nullish.\<close>

fun get_prop :: "js_value \<Rightarrow> string \<Rightarrow> js_value" where
  "get_prop (JObj fs) k = (case map_of fs k of Some v \<Rightarrow> v | None \<Rightarrow> JUndefined)"
| "get_prop _ k = JUndefined"

text \<open>\<^verbatim>\<open>new Error(msg)\<close>: an object whose only property of interest is its message.\<close>

definition new_Error :: "string \<Rightarrow> js_value" where
  "new_Error msg = JObj [(''message'', JStr msg)]"

text \<open>
  A JavaScript number as far as port discovery can produce one: \<^verbatim>\<open>Number(undefined)\<close>
  is \<^verbatim>\<open>NaN\<close>, and \<^verbatim>\<open>Number\<close> of a digit string is the double nearest to its
  value, which is a natural number or \<^verbatim>\<open>Infinity\<close>.
\<close>

datatype js_number = NaN | PosInfinity | Finite nat

datatype hook_type = PostStart | PreStop

fun hook_name :: "hook_type \<Rightarrow> string" where
  "hook_name PostStart = ''postStart''"
| "hook_name PreStop = ''preStop''"

record index_opts =
  imageRef :: string
  shortCode :: string
  apiKey :: string
  apiUrl :: string
  index_envId :: string

record create_opts =
  image :: string
  create_envId :: string
  create_runId :: string

record restore_opts =
  runId :: string
  checkpointRef :: string

text \<open>
  The command lines the provider issues, one constructor per call site:
  \<^item> \<open>CriuVersion\<close>: \<^verbatim>\<open>criu --version\<close>
  \<^item> \<open>DockerCheckpoint\<close>: \<^verbatim>\<open>docker checkpoint\<close>
  \<^item> \<open>DockerRunIndex opts name\<close>: \<^verbatim>\<open>docker run --network=host --rm --env=INDEX_TASKS=true ... --name=name imageRef\<close>
  \<^item> \<open>DockerRunCreate opts name\<close>: \<^verbatim>\<open>docker run --network=host --detach ... --name=name image\<close>
  \<^item> \<open>DockerUnpause name\<close>: \<^verbatim>\<open>docker unpause name\<close>
  \<^item> \<open>DockerStartCheckpoint ref name\<close>: \<^verbatim>\<open>docker start --checkpoint=ref name\<close>
  \<^item> \<open>DockerLogs name\<close>: \<^verbatim>\<open>docker logs name\<close>
  \<^item> \<open>DockerExecWget name port type cause\<close>:
    \<^verbatim>\<open>docker exec name busybox wget -q -O- 127.0.0.1:port/type?cause=cause\<close>
\<close>

datatype cmd =
    CriuVersion
  | DockerCheckpoint
  | DockerRunIndex index_opts string
  | DockerRunCreate create_opts string
  | DockerUnpause string
  | DockerStartCheckpoint string string
  | DockerLogs string
  | DockerExecWget string js_number hook_type string

text \<open>What \<^verbatim>\<open>execa\<close> resolves with.\<close>

record execa_result =
  exitCode :: int
  stdout :: string
  stderr :: string
  escapedCommand :: string

text \<open>An awaited \<^verbatim>\<open>execa\<close> promise either resolves with a result or rejects with a value.\<close>

datatype outcome = Resolve execa_result | Reject js_value

definition result_obj :: "execa_result \<Rightarrow> js_value" where
  "result_obj r = JObj [(''exitCode'', JNum (exitCode r)), (''stdout'', JStr (stdout r)),
     (''stderr'', JStr (stderr r)), (''escapedCommand'', JStr (escapedCommand r))]"

definition isExecaChildProcess :: "js_value \<Rightarrow> bool" where
  "isExecaChildProcess maybeExeca =
     (case maybeExeca of JObj fs \<Rightarrow> ''escapedCommand'' \<in> set (map fst fs) | _ \<Rightarrow> False)"

section \<open>Port discovery: the pattern and the number\<close>

definition port_pattern_prefix :: string where
  "port_pattern_prefix = ''http server listening on port ''"

definition is_digit :: "char \<Rightarrow> bool" where
  "is_digit c = (c \<in> set ''0123456789'')"

text \<open>The pattern \<^verbatim>\<open>/http server listening on port (?<port>[0-9]+)/\<close> tried at the start
  of a string: the capture of the group, the digits being taken greedily.\<close>

definition match_here :: "string \<Rightarrow> string option" where
  "match_here s =
     (if take (length port_pattern_prefix) s = port_pattern_prefix
      then (let ds = takeWhile is_digit (drop (length port_pattern_prefix) s)
            in if ds = [] then None else Some ds)
      else None)"

text \<open>\<^verbatim>\<open>String.prototype.match\<close> with a regular expression without the global flag: the
  leftmost position at which the pattern matches.\<close>

fun regex_match :: "string \<Rightarrow> string option" where
  "regex_match [] = match_here []"
| "regex_match (c # cs) =
     (case match_here (c # cs) of Some ds \<Rightarrow> Some ds | None \<Rightarrow> regex_match cs)"

definition digit_value :: "char \<Rightarrow> nat" where
  "digit_value c = of_char c - 48"

definition decimal_value :: "string \<Rightarrow> nat" where
  "decimal_value ds = foldl (\<lambda>acc c. 10 * acc + digit_value c) 0 ds"

fun bit_length :: "nat \<Rightarrow> nat" where
  "bit_length n = (if n = 0 then 0 else Suc (bit_length (n div 2)))"

text \<open>The double nearest to a natural number (ties to even), as \<^verbatim>\<open>Number\<close> gives it for
  a digit string: exact below \<open>2 ^ 53\<close>, \<^verbatim>\<open>Infinity\<close> from \<open>2 ^ 1024\<close> on.\<close>

definition double_of_nat :: "nat \<Rightarrow> js_number" where
  "double_of_nat n =
     (if n < 2 ^ 53 then Finite n
      else (let sh = bit_length n - 53;
                q = n div 2 ^ sh;
                r = n mod 2 ^ sh;
                half = 2 ^ (sh - 1);
                q' = (if half < r \<or> (r = half \<and> odd q) then q + 1 else q);
                v = q' * 2 ^ sh
            in if 2 ^ 1024 \<le> v then PosInfinity else Finite v))"

text \<open>\<^verbatim>\<open>Number(matches?.groups?.port)\<close>.\<close>

definition Number_of_match :: "string option \<Rightarrow> js_number" where
  "Number_of_match matches =
     (case matches of None \<Rightarrow> NaN | Some ds \<Rightarrow> double_of_nat (decimal_value ds))"

text \<open>\<^verbatim>\<open>!port\<close>: a number is falsy when it is \<^verbatim>\<open>NaN\<close> or zero.\<close>

fun falsy :: "js_number \<Rightarrow> bool" where
  "falsy NaN = True"
| "falsy PosInfinity = False"
| "falsy (Finite n) = (n = 0)"

text \<open>A template literal's rendering of an integer.\<close>

fun show_nat :: "nat \<Rightarrow> string" where
  "show_nat n = (if n < 10 then [char_of (48 + n)] else show_nat (n div 10) @ [char_of (48 + n mod 10)])"

definition show_int :: "int \<Rightarrow> string" where
  "show_int i = (if i < 0 then ''-'' @ show_nat (nat (- i)) else show_nat (nat i))"

section \<open>Doubles and the backoff\<close>

text \<open>
  The numbers of the backoff are IEEE doubles, and none of them is negative.  A finite one
  is \<open>DFinite m e\<close>, of value \<open>m * 2 ^ e\<close>; a double proper has \<open>m < 2 ^ 53\<close> and
  \<open>- 1074 \<le> e\<close>.  The number literals \<^verbatim>\<open>2\<close>, \<^verbatim>\<open>50\<close> and \<^verbatim>\<open>1150\<close> of the source are
  \<open>DFinite 2 0\<close>, \<open>DFinite 50 0\<close> and \<open>DFinite 1150 0\<close>.
\<close>

datatype double = DNaN | DInfinity | DFinite nat int

fun is_finite :: "double \<Rightarrow> bool" where
  "is_finite (DFinite m e) = True"
| "is_finite _ = False"

text \<open>The value of a finite double (0 for the other two, by convention).\<close>

fun dval :: "double \<Rightarrow> real" where
  "dval (DFinite m e) = real m * 2 powi e"
| "dval _ = 0"

text \<open>\<open>m / 2 ^ sh\<close> rounded to the nearest natural number, a tie going to the even one.\<close>

definition round_shift :: "nat \<Rightarrow> nat \<Rightarrow> nat" where
  "round_shift m sh =
     (let q = m div 2 ^ sh; r = m mod 2 ^ sh
      in if 2 ^ sh < 2 * r \<or> (2 * r = 2 ^ sh \<and> odd q) then q + 1 else q)"

text \<open>
  The double nearest to the exact result \<open>m * 2 ^ e\<close> of an operation (round to nearest,
  ties to even): the mantissa keeps 53 bits, fewer below \<open>2 ^ (- 1022)\<close> where the
  exponent stops at \<open>- 1074\<close>, and a result of \<open>2 ^ 1024\<close> or more is \<^verbatim>\<open>Infinity\<close>.
\<close>

definition round_double :: "nat \<Rightarrow> int \<Rightarrow> double" where
  "round_double m e =
     (let sh = nat (max (int (bit_length m) - 53) (- 1074 - e));
          q = round_shift m sh;
          e' = e + int sh
      in if 0 \<le> e' \<and> 2 ^ 1024 \<le> q * 2 ^ nat e' then DInfinity else DFinite q e')"

text \<open>\<^verbatim>\<open>x * y\<close>, \<^verbatim>\<open>x + y\<close> and \<^verbatim>\<open>Math.min(x, y)\<close>.\<close>

fun d_mult :: "double \<Rightarrow> double \<Rightarrow> double" where
  "d_mult DNaN y = DNaN"
| "d_mult x DNaN = DNaN"
| "d_mult DInfinity DInfinity = DInfinity"
| "d_mult DInfinity (DFinite m e) = (if m = 0 then DNaN else DInfinity)"
| "d_mult (DFinite m e) DInfinity = (if m = 0 then DNaN else DInfinity)"
| "d_mult (DFinite m1 e1) (DFinite m2 e2) = round_double (m1 * m2) (e1 + e2)"

fun d_add :: "double \<Rightarrow> double \<Rightarrow> double" where
  "d_add DNaN y = DNaN"
| "d_add x DNaN = DNaN"
| "d_add DInfinity y = DInfinity"
| "d_add x DInfinity = DInfinity"
| "d_add (DFinite m1 e1) (DFinite m2 e2) =
     (let e = min e1 e2
      in round_double (m1 * 2 ^ nat (e1 - e) + m2 * 2 ^ nat (e2 - e)) e)"

fun d_min :: "double \<Rightarrow> double \<Rightarrow> double" where
  "d_min DNaN y = DNaN"
| "d_min x DNaN = DNaN"
| "d_min DInfinity y = y"
| "d_min x DInfinity = x"
| "d_min (DFinite m1 e1) (DFinite m2 e2) =
     (let e = min e1 e2
      in if m1 * 2 ^ nat (e1 - e) \<le> m2 * 2 ^ nat (e2 - e) then DFinite m1 e1 else DFinite m2 e2)"

text \<open>\<^verbatim>\<open>Math.pow(x, n)\<close> for a natural number \<open>n\<close>, as the double nearest to the power; the
  powers of 2 that the provider asks for are exact.\<close>

definition d_pow :: "double \<Rightarrow> nat \<Rightarrow> double" where
  "d_pow x n =
     (if n = 0 then DFinite 1 0
      else case x of
             DNaN \<Rightarrow> DNaN
           | DInfinity \<Rightarrow> DInfinity
           | DFinite m e \<Rightarrow> round_double (m ^ n) (e * int n))"

text \<open>\<^verbatim>\<open>exponentialBackoff\<close>, with the value of \<^verbatim>\<open>Math.random()\<close> as its last argument.\<close>

definition exponentialBackoff ::
  "nat \<Rightarrow> double \<Rightarrow> double \<Rightarrow> double \<Rightarrow> double \<Rightarrow> double \<Rightarrow> double" where
  "exponentialBackoff retryCount exponential minDelay maxDelay jitter rnd =
     (let delay = d_min (d_mult (d_pow exponential retryCount) minDelay) maxDelay;
          jitterValue = d_mult rnd jitter
      in d_add delay jitterValue)"

text \<open>What \<^verbatim>\<open>Math.random()\<close> may return: a double proper, at least 0 and less than 1.\<close>

fun unit_double :: "double \<Rightarrow> bool" where
  "unit_double (DFinite m e) = (m < 2 ^ 53 \<and> - 1074 \<le> e \<and> real m * 2 powi e < 1)"
| "unit_double _ = False"

section \<open>The provider's state and its environment\<close>

datatype level = LogLevel | DebugLevel | ErrorLevel

text \<open>What an operation does that can be seen from outside, in order: a command with the
  outcome the runner gave it, a \<^verbatim>\<open>setTimeout\<close> of some milliseconds, a logger call.\<close>

datatype event =
    Exec cmd outcome
  | Sleep double
  | Log level "js_value list"

text \<open>
  The environment of one run of an operation: \<open>execa e k c\<close> is the outcome of the
  \<open>k\<close>-th command issued (counted from 0) when that command is \<open>c\<close>, and
  \<open>math_random e k\<close> the value of the \<open>k\<close>-th call of \<^verbatim>\<open>Math.random()\<close>.  The two
  coordinator constants are read from the process environment at start-up.
\<close>

record env =
  execa :: "nat \<Rightarrow> cmd \<Rightarrow> outcome"
  math_random :: "nat \<Rightarrow> double"
  COORDINATOR_HOST :: string
  COORDINATOR_PORT :: js_value

text \<open>
  The private fields \<^verbatim>\<open>#initialized\<close> and \<^verbatim>\<open>#canCheckpoint\<close> of
  \<^verbatim>\<open>DockerTaskOperations\<close>, its option \<^verbatim>\<open>opts.forceSimulate\<close>, the number of
  commands issued and of random numbers drawn so far, and everything done so far.
  Operations are followed one at a time: what other operations do to the container
  runtime meanwhile shows in the outcomes the runner gives.
\<close>

record state =
  initialized :: bool
  canCheckpoint :: bool
  forceSimulate :: bool
  calls :: nat
  draws :: nat
  trace :: "event list"

text \<open>\<^verbatim>\<open>new DockerTaskOperations({ forceSimulate })\<close>.\<close>

definition new_DockerTaskOperations :: "bool \<Rightarrow> state" where
  "new_DockerTaskOperations force =
     \<lparr>initialized = False, canCheckpoint = False, forceSimulate = force,
      calls = 0, draws = 0, trace = []\<rparr>"

text \<open>Awaiting a command, \<^verbatim>\<open>await execa(...)\<close> or \<^verbatim>\<open>await $`...`\<close>: \<open>Inl\<close> is the value
  thrown when the promise rejects.  The library \<^verbatim>\<open>execa\<close> itself is the parameter
  \<open>execa e\<close>.\<close>

definition run :: "env \<Rightarrow> cmd \<Rightarrow> state \<Rightarrow> (js_value + execa_result) \<times> state" where
  "run e c s =
     (let out = execa e (calls s) c;
          s' = s\<lparr>calls := Suc (calls s), trace := trace s @ [Exec c out]\<rparr>
      in (case out of Resolve r \<Rightarrow> (Inr r, s') | Reject v \<Rightarrow> (Inl v, s')))"

text \<open>
  Modelled from the spec: \<^verbatim>\<open>SimpleLogger\<close> of the package \<^verbatim>\<open>core-apps\<close> is missing from
  the sources.  The core only requires an object capable of leveled log calls: a call
  records its level and its arguments.  Where the source goes on with the result of
  \<^verbatim>\<open>logger.debug(x)\<close>, that result is \<open>x\<close>.
\<close>

definition logger :: "level \<Rightarrow> js_value list \<Rightarrow> state \<Rightarrow> state" where
  "logger lvl args s = s\<lparr>trace := trace s @ [Log lvl args]\<rparr>"

definition setTimeout :: "double \<Rightarrow> state \<Rightarrow> state" where
  "setTimeout ms s = s\<lparr>trace := trace s @ [Sleep ms]\<rparr>"

definition Math_random :: "env \<Rightarrow> state \<Rightarrow> double \<times> state" where
  "Math_random e s = (math_random e (draws s), s\<lparr>draws := Suc (draws s)\<rparr>)"

section \<open>Capability probe\<close>

record initialize_return =
  ret_canCheckpoint :: bool
  willSimulate :: bool

definition getInitializeReturn :: "state \<Rightarrow> initialize_return" where
  "getInitializeReturn s =
     \<lparr>ret_canCheckpoint = canCheckpoint s,
      willSimulate = (\<not> canCheckpoint s \<or> forceSimulate s)\<rparr>"

definition initialize :: "env \<Rightarrow> state \<Rightarrow> initialize_return \<times> state" where
  "initialize e s =
     (if initialized s then (getInitializeReturn s, s)
      else
        (let s1 = logger LogLevel [JStr ''Initializing task operations''] s;
             s2 = (if forceSimulate s1
                   then logger LogLevel
                     [JStr ''Forced simulation enabled. Will simulate regardless of checkpoint support.''] s1
                   else s1)
         in case run e CriuVersion s2 of
              (Inl error, s3) \<Rightarrow>
                (let s4 = logger ErrorLevel
                       [JStr ''No checkpoint support: Missing CRIU binary. Will simulate instead.''] s3;
                     s5 = s4\<lparr>canCheckpoint := False, initialized := True\<rparr>
                 in (getInitializeReturn s5, s5))
            | (Inr _, s3) \<Rightarrow>
                (case run e DockerCheckpoint s3 of
                   (Inl error, s4) \<Rightarrow>
                     (let s5 = logger ErrorLevel
                            [JStr ''No checkpoint support: Docker needs to have experimental features enabled''] s4;
                          s6 = logger ErrorLevel [JStr ''Will simulate instead''] s5;
                          s7 = s6\<lparr>canCheckpoint := False, initialized := True\<rparr>
                      in (getInitializeReturn s7, s7))
                 | (Inr _, s4) \<Rightarrow>
                     (let s5 = logger LogLevel [JStr ''Full checkpoint support!''] s4;
                          s6 = s5\<lparr>initialized := True, canCheckpoint := True\<rparr>
                      in (getInitializeReturn s6, s6)))))"

section \<open>Container names\<close>

definition getIndexContainerName :: "string \<Rightarrow> string" where
  "getIndexContainerName suffix = ''task-index-'' @ suffix"

definition getRunContainerName :: "string \<Rightarrow> string" where
  "getRunContainerName suffix = ''task-run-'' @ suffix"

section \<open>Lifecycle hooks\<close>

definition getHttpServerPort :: "env \<Rightarrow> string \<Rightarrow> state \<Rightarrow> (js_value + js_number) \<times> state" where
  "getHttpServerPort e containerName s =
     (case run e (DockerLogs containerName) s of
        (Inl error, s1) \<Rightarrow> (Inl error, s1)
      | (Inr logs, s1) \<Rightarrow>
          (let s2 = logger DebugLevel [result_obj logs] s1;
               matches = regex_match (stdout logs);
               port = Number_of_match matches
           in if falsy port
              then (Inl (new_Error ''failed to extract port from logs''), s2)
              else (Inr port, s2)))"

text \<open>\<^verbatim>\<open>error?.message\<close>.\<close>

definition message_of :: "js_value \<Rightarrow> js_value" where
  "message_of error = get_prop error ''message''"

function runLifecycleCommand ::
  "env \<Rightarrow> string \<Rightarrow> js_number \<Rightarrow> hook_type \<Rightarrow> string \<Rightarrow> nat \<Rightarrow> state
     \<Rightarrow> (js_value + execa_result) \<times> state" where
  "runLifecycleCommand e containerName port type cause retryCount s =
     (case run e (DockerExecWget containerName port type cause) s of
        (Inr r, s1) \<Rightarrow> (Inr r, s1)
      | (Inl error, s1) \<Rightarrow>
          (if type = PostStart \<and> retryCount < 6
           then
             (let s2 = logger DebugLevel
                    [JStr (''retriable '' @ hook_name type @ '' error''),
                     JObj [(''retryCount'', JNum (int retryCount)),
                           (''message'', message_of error)]] s1;
                  (rnd, s3) = Math_random e s2;
                  s4 = setTimeout
                         (exponentialBackoff (retryCount + 1) (DFinite 2 0) (DFinite 50 0)
                            (DFinite 1150 0) (DFinite 50 0) rnd) s3
              in runLifecycleCommand e containerName port type cause (retryCount + 1) s4)
           else
             (let s2 = logger ErrorLevel
                    [JStr (''final '' @ hook_name type @ '' error''),
                     JObj [(''message'', message_of error)]] s1
              in (Inl (new_Error (hook_name type @ '' command failed after ''
                         @ show_int (int retryCount - 1) @ '' retries'')), s2))))"
  by pat_completeness auto
termination
  by (relation "measure (\<lambda>(e, containerName, port, type, cause, retryCount, s). 6 - retryCount)") auto

definition sendPostStart :: "env \<Rightarrow> string \<Rightarrow> state \<Rightarrow> (js_value + unit) \<times> state" where
  "sendPostStart e containerName s =
     (case getHttpServerPort e containerName s of
        (Inl error, s1) \<Rightarrow>
          (Inl (new_Error ''postStart command failed''),
           logger ErrorLevel [JStr ''postStart error'', JObj [(''error'', error)]] s1)
      | (Inr port, s1) \<Rightarrow>
          (case runLifecycleCommand e containerName port PostStart ''restore'' 0 s1 of
             (Inl error, s2) \<Rightarrow>
               (Inl (new_Error ''postStart command failed''),
                logger ErrorLevel [JStr ''postStart error'', JObj [(''error'', error)]] s2)
           | (Inr r, s2) \<Rightarrow> (Inr (), logger DebugLevel [result_obj r] s2)))"

definition sendPreStop :: "env \<Rightarrow> string \<Rightarrow> state \<Rightarrow> (js_value + unit) \<times> state" where
  "sendPreStop e containerName s =
     (case getHttpServerPort e containerName s of
        (Inl error, s1) \<Rightarrow>
          (Inl (new_Error ''preStop command failed''),
           logger ErrorLevel [JStr ''preStop error'', JObj [(''error'', error)]] s1)
      | (Inr port, s1) \<Rightarrow>
          (case runLifecycleCommand e containerName port PreStop ''terminate'' 0 s1 of
             (Inl error, s2) \<Rightarrow>
               (Inl (new_Error ''preStop command failed''),
                logger ErrorLevel [JStr ''preStop error'', JObj [(''error'', error)]] s2)
           | (Inr r, s2) \<Rightarrow> (Inr (), logger DebugLevel [result_obj r] s2)))"

section \<open>Operations\<close>

definition index_opts_obj :: "index_opts \<Rightarrow> js_value" where
  "index_opts_obj opts = JObj [(''imageRef'', JStr (imageRef opts)),
     (''shortCode'', JStr (shortCode opts)), (''apiKey'', JStr (apiKey opts)),
     (''apiUrl'', JStr (apiUrl opts)), (''envId'', JStr (index_envId opts))]"

definition create_opts_obj :: "create_opts \<Rightarrow> js_value" where
  "create_opts_obj opts = JObj [(''image'', JStr (image opts)),
     (''envId'', JStr (create_envId opts)), (''runId'', JStr (create_runId opts))]"

text \<open>The object logged when \<^verbatim>\<open>docker run\<close> rejected with a child-process result.\<close>

definition failure_report :: "js_value \<Rightarrow> js_value \<Rightarrow> js_value" where
  "failure_report opts error = JObj [(''opts'', opts),
     (''exitCode'', get_prop error ''exitCode''),
     (''escapedCommand'', get_prop error ''escapedCommand''),
     (''stdout'', get_prop error ''stdout''),
     (''stderr'', get_prop error ''stderr'')]"

definition index :: "env \<Rightarrow> index_opts \<Rightarrow> state \<Rightarrow> (js_value + unit) \<times> state" where
  "index e opts s =
     (let (ir, s1) = initialize e s;
          containerName = getIndexContainerName (shortCode opts);
          s2 = logger LogLevel
                 [JStr (''Indexing task '' @ imageRef opts),
                  JObj [(''host'', JStr (COORDINATOR_HOST e)), (''port'', COORDINATOR_PORT e)]] s1
      in case run e (DockerRunIndex opts containerName) s2 of
           (Inr r, s3) \<Rightarrow> (Inr (), logger DebugLevel [result_obj r] s3)
         | (Inl error, s3) \<Rightarrow>
             (if \<not> isExecaChildProcess error then (Inl error, s3)
              else (Inr (), logger ErrorLevel
                      [JStr ''Index failed:'', failure_report (index_opts_obj opts) error] s3)))"

definition create :: "env \<Rightarrow> create_opts \<Rightarrow> state \<Rightarrow> (js_value + unit) \<times> state" where
  "create e opts s =
     (let (ir, s1) = initialize e s;
          containerName = getRunContainerName (create_runId opts)
      in case run e (DockerRunCreate opts containerName) s1 of
           (Inr r, s2) \<Rightarrow> (Inr (), logger DebugLevel [result_obj r] s2)
         | (Inl error, s2) \<Rightarrow>
             (if \<not> isExecaChildProcess error then (Inl error, s2)
              else (Inr (), logger ErrorLevel
                      [JStr ''Create failed:'', failure_report (create_opts_obj opts) error] s2)))"

definition restore :: "env \<Rightarrow> restore_opts \<Rightarrow> state \<Rightarrow> (js_value + unit) \<times> state" where
  "restore e opts s =
     (let (ir, s1) = initialize e s;
          containerName = getRunContainerName (runId opts)
      in if \<not> canCheckpoint s1 \<or> forceSimulate s1
         then
           (let s2 = logger LogLevel [JStr ''Simulating restore''] s1
            in case run e (DockerUnpause containerName) s2 of
                 (Inl error, s3) \<Rightarrow> (Inl error, s3)
               | (Inr unpause, s3) \<Rightarrow>
                   (let s4 = logger DebugLevel [result_obj unpause] s3
                    in if exitCode unpause \<noteq> 0
                       then (Inl (new_Error ''docker unpause command failed''), s4)
                       else sendPostStart e containerName s4))
         else
           (case run e (DockerStartCheckpoint (checkpointRef opts) containerName) s1 of
              (Inl error, s2) \<Rightarrow> (Inl error, s2)
            | (Inr started, s2) \<Rightarrow>
                (let s3 = logger DebugLevel [result_obj started] s2
                 in if exitCode started \<noteq> 0
                    then (Inl (new_Error ''docker start command failed''), s3)
                    else sendPostStart e containerName s3)))"

definition delete :: "env \<Rightarrow> string \<Rightarrow> state \<Rightarrow> (js_value + unit) \<times> state" where
  "delete e run_id s =
     (let (ir, s1) = initialize e s;
          containerName = getRunContainerName run_id
      in case sendPreStop e containerName s1 of
           (Inl error, s2) \<Rightarrow> (Inl error, s2)
         | (Inr u, s2) \<Rightarrow> (Inr (), logger LogLevel [JStr ''noop: delete''] s2))"

definition get :: "env \<Rightarrow> string \<Rightarrow> state \<Rightarrow> (js_value + unit) \<times> state" where
  "get e run_id s =
     (let (ir, s1) = initialize e s
      in (Inr (), logger LogLevel [JStr ''noop: get''] s1))"

section \<open>Reading a trace\<close>

text \<open>The commands issued, the delays slept and the commands that resolved, in order.\<close>

fun cmds :: "event list \<Rightarrow> cmd list" where
  "cmds [] = []"
| "cmds (Exec c out # evs) = c # cmds evs"
| "cmds (ev # evs) = cmds evs"

fun sleeps :: "event list \<Rightarrow> double list" where
  "sleeps [] = []"
| "sleeps (Sleep ms # evs) = ms # sleeps evs"
| "sleeps (ev # evs) = sleeps evs"

fun resolved :: "event list \<Rightarrow> (cmd \<times> execa_result) list" where
  "resolved [] = []"
| "resolved (Exec c (Resolve r) # evs) = (c, r) # resolved evs"
| "resolved (ev # evs) = resolved evs"

text \<open>What was done between two states of one run.\<close>

definition new_events :: "state \<Rightarrow> state \<Rightarrow> event list" where
  "new_events s s' = drop (length (trace s)) (trace s')"

text \<open>What was done, the log lines left out.\<close>

fun steps :: "event list \<Rightarrow> event list" where
  "steps [] = []"
| "steps (Log lvl args # evs) = steps evs"
| "steps (ev # evs) = ev # steps evs"

text \<open>The runtime commands of \<^verbatim>\<open>restore\<close>: unpause and start from a checkpoint.\<close>

fun is_unpause :: "cmd \<Rightarrow> bool" where
  "is_unpause (DockerUnpause name) = True"
| "is_unpause _ = False"

fun is_checkpoint_start :: "cmd \<Rightarrow> bool" where
  "is_checkpoint_start (DockerStartCheckpoint ref name) = True"
| "is_checkpoint_start _ = False"

definition is_runtime_cmd :: "cmd \<Rightarrow> bool" where
  "is_runtime_cmd c = (is_unpause c \<or> is_checkpoint_start c)"

text \<open>The commands of a lifecycle dispatch: the log snapshot and the delivery.\<close>

fun is_dispatch_cmd :: "cmd \<Rightarrow> bool" where
  "is_dispatch_cmd (DockerLogs name) = True"
| "is_dispatch_cmd (DockerExecWget name port type cause) = True"
| "is_dispatch_cmd _ = False"

text \<open>The state in which a failed postStart delivery is retried: the rejected command, the
  debug line and the backoff sleep have happened, and one random number is used up.\<close>

definition after_retry :: "env \<Rightarrow> nat \<Rightarrow> js_value \<Rightarrow> cmd \<Rightarrow> state \<Rightarrow> state" where
  "after_retry e retryCount error c s =
     s\<lparr>calls := Suc (calls s), draws := Suc (draws s),
       trace := trace s @
         [Exec c (Reject error),
          Log DebugLevel [JStr ''retriable postStart error'',
             JObj [(''retryCount'', JNum (int retryCount)), (''message'', message_of error)]],
          Sleep (exponentialBackoff (retryCount + 1) (DFinite 2 0) (DFinite 50 0)
                   (DFinite 1150 0) (DFinite 50 0) (math_random e (draws s)))]\<rparr>"

text \<open>
  For a delivery started in state \<open>s\<close>: the random number drawn for retry \<open>n\<close> (the first
  retry draws the next random number), the jitter and the delay computed from it.
\<close>

definition retry_random :: "env \<Rightarrow> state \<Rightarrow> nat \<Rightarrow> double" where
  "retry_random e s n = math_random e (draws s + (n - 1))"

definition retry_jitter :: "env \<Rightarrow> state \<Rightarrow> nat \<Rightarrow> double" where
  "retry_jitter e s n = d_mult (retry_random e s n) (DFinite 50 0)"

definition retry_delay :: "env \<Rightarrow> state \<Rightarrow> nat \<Rightarrow> double" where
  "retry_delay e s n =
     exponentialBackoff n (DFinite 2 0) (DFinite 50 0) (DFinite 1150 0) (DFinite 50 0)
       (retry_random e s n)"

text \<open>The runtime command \<^verbatim>\<open>restore\<close> chooses once the probe has run.\<close>

definition restore_runtime_cmd :: "env \<Rightarrow> restore_opts \<Rightarrow> state \<Rightarrow> cmd" where
  "restore_runtime_cmd e opts s =
     (if willSimulate (fst (initialize e s))
      then DockerUnpause (getRunContainerName (runId opts))
      else DockerStartCheckpoint (checkpointRef opts) (getRunContainerName (runId opts)))"

text \<open>The outcome the runner gives that runtime command: it is the first command after
  the probe.\<close>

definition restore_runtime_outcome :: "env \<Rightarrow> restore_opts \<Rightarrow> state \<Rightarrow> outcome" where
  "restore_runtime_outcome e opts s =
     execa e (calls (snd (initialize e s))) (restore_runtime_cmd e opts s)"

text \<open>The runner as \<^verbatim>\<open>execa\<close> is without \<^verbatim>\<open>reject: false\<close>: a promise that resolves
  carries exit code 0, every other exit rejects.\<close>

definition rejects_nonzero_exit :: "env \<Rightarrow> bool" where
  "rejects_nonzero_exit e = (\<forall>k c r. execa e k c = Resolve r \<longrightarrow> exitCode r = 0)"

text \<open>\<^verbatim>\<open>Math.random()\<close> returns a double in \<open>[0, 1)\<close>.\<close>

definition random_in_unit :: "env \<Rightarrow> bool" where
  "random_in_unit e = (\<forall>k. unit_double (math_random e k))"

section \<open>The pattern, as the specification words it\<close>

text \<open>An occurrence of \<^verbatim>\<open>http server listening on port <N>\<close> at position \<open>i\<close> of a
  snapshot: the words, then at least one digit.\<close>

definition pattern_at :: "string \<Rightarrow> nat \<Rightarrow> bool" where
  "pattern_at s i =
     (take (length port_pattern_prefix) (drop i s) = port_pattern_prefix \<and>
      (case drop (i + length port_pattern_prefix) s of [] \<Rightarrow> False | d # _ \<Rightarrow> is_digit d))"

text \<open>The numeral \<open><N>\<close> of the occurrence at position \<open>i\<close>: all the digits that follow
  the words.\<close>

definition captured_at :: "string \<Rightarrow> nat \<Rightarrow> string" where
  "captured_at s i = takeWhile is_digit (drop (i + length port_pattern_prefix) s)"

text \<open>The first occurrence is at position \<open>i\<close>.\<close>

definition first_pattern_at :: "string \<Rightarrow> nat \<Rightarrow> bool" where
  "first_pattern_at s i = (pattern_at s i \<and> (\<forall>j < i. \<not> pattern_at s j))"

section \<open>Sample environments\<close>

definition sample_result :: "string \<Rightarrow> execa_result" where
  "sample_result out = \<lparr>exitCode = 0, stdout = out, stderr = [], escapedCommand = ''docker''\<rparr>"

text \<open>The error \<^verbatim>\<open>execa\<close> rejects with when a command exits with code 1.\<close>

definition sample_exit_error :: js_value where
  "sample_exit_error = JObj [(''message'', JStr ''Command failed with exit code 1''),
     (''exitCode'', JNum 1), (''escapedCommand'', JStr ''docker''),
     (''stdout'', JStr []), (''stderr'', JStr ''boom'')]"

text \<open>A runner whose every command succeeds, the log snapshot being \<open>out\<close>, but for the
  commands numbered in \<open>failing\<close>, which exit with code 1.\<close>

definition sample_env :: "string \<Rightarrow> nat list \<Rightarrow> env" where
  "sample_env out failing =
     \<lparr>execa = (\<lambda>k c. if k \<in> set failing then Reject sample_exit_error
                      else Resolve (sample_result out)),
      math_random = (\<lambda>k. DFinite 0 0),
      COORDINATOR_HOST = ''127.0.0.1'',
      COORDINATOR_PORT = JNum 8020\<rparr>"

definition sample_restore_opts :: restore_opts where
  "sample_restore_opts = \<lparr>runId = ''run_9'', checkpointRef = ''cp1''\<rparr>"

definition sample_index_opts :: index_opts where
  "sample_index_opts = \<lparr>imageRef = ''myimg:1'', shortCode = ''abc123'', apiKey = ''key'',
     apiUrl = ''http://api'', index_envId = ''env''\<rparr>"

definition sample_create_opts :: create_opts where
  "sample_create_opts = \<lparr>image = ''myimg:1'', create_envId = ''env'', create_runId = ''run_9''\<rparr>"

text \<open>A postStart delivery into container \<open>task-run-run_9\<close> on port 4000, started from a
  fresh provider, the commands numbered in \<open>failing\<close> failing.\<close>

definition sample_delivery :: "nat list \<Rightarrow> (js_value + execa_result) \<times> state" where
  "sample_delivery failing =
     runLifecycleCommand (sample_env [] failing) ''task-run-run_9'' (Finite 4000) PostStart
       ''restore'' 0 (new_DockerTaskOperations False)"

text \<open>A log snapshot in which the control process has announced port 4000, and one in
  which it has announced port 0.\<close>

definition sample_snapshot :: string where
  "sample_snapshot = ''...\<newline>http server listening on port 4000\<newline>...''"

definition zero_snapshot :: string where
  "zero_snapshot = ''http server listening on port 0''"

text \<open>A runner whose every command exits with code 1.\<close>

definition failing_env :: env where
  "failing_env =
     \<lparr>execa = (\<lambda>k c. Reject sample_exit_error),
      math_random = (\<lambda>k. DFinite 0 0),
      COORDINATOR_HOST = ''127.0.0.1'',
      COORDINATOR_PORT = JNum 8020\<rparr>"

text \<open>A runner whose first command, the log snapshot of a dispatch started from a fresh
  provider, shows a control process that has not announced its port yet; every later
  snapshot would show port 4000, and every command succeeds.\<close>

definition late_port_env :: env where
  "late_port_env =
     \<lparr>execa = (\<lambda>k c. Resolve (sample_result (if k = 0 then ''starting'' else sample_snapshot))),
      math_random = (\<lambda>k. DFinite 0 0),
      COORDINATOR_HOST = ''127.0.0.1'',
      COORDINATOR_PORT = JNum 8020\<rparr>"

text \<open>The state in which \<^verbatim>\<open>restore\<close> issues its runtime command: the probe has run, and
  on the simulated path the line \<^verbatim>\<open>Simulating restore\<close> is logged.\<close>

definition restore_pre_state :: "env \<Rightarrow> state \<Rightarrow> state" where
  "restore_pre_state e s =
     (if willSimulate (fst (initialize e s))
      then logger LogLevel [JStr ''Simulating restore''] (snd (initialize e s))
      else snd (initialize e s))"

text \<open>The state in which \<^verbatim>\<open>restore\<close> tests the exit code of its runtime command, the
  command having resolved with \<open>r\<close> and the result having been logged.\<close>

definition restore_started_state :: "env \<Rightarrow> restore_opts \<Rightarrow> state \<Rightarrow> execa_result \<Rightarrow> state" where
  "restore_started_state e opts s r =
     (restore_pre_state e s)
       \<lparr>calls := Suc (calls (restore_pre_state e s)),
        trace := trace (restore_pre_state e s) @
          [Exec (restore_runtime_cmd e opts s) (Resolve r), Log DebugLevel [result_obj r]]\<rparr>"

text \<open>The error of the exit-code guard on the path taken.\<close>

definition restore_guard_error :: "env \<Rightarrow> state \<Rightarrow> js_value" where
  "restore_guard_error e s =
     (if willSimulate (fst (initialize e s))
      then new_Error ''docker unpause command failed''
      else new_Error ''docker start command failed'')"

text \<open>The commands with which \<^verbatim>\<open>index\<close> and \<^verbatim>\<open>create\<close> launch their container, and the
  outcome the runner gives them: each is the first command after the probe.\<close>

definition index_cmd :: "index_opts \<Rightarrow> cmd" where
  "index_cmd opts = DockerRunIndex opts (getIndexContainerName (shortCode opts))"

definition index_outcome :: "env \<Rightarrow> index_opts \<Rightarrow> state \<Rightarrow> outcome" where
  "index_outcome e opts s = execa e (calls (snd (initialize e s))) (index_cmd opts)"

definition create_cmd :: "create_opts \<Rightarrow> cmd" where
  "create_cmd opts = DockerRunCreate opts (getRunContainerName (create_runId opts))"

definition create_outcome :: "env \<Rightarrow> create_opts \<Rightarrow> state \<Rightarrow> outcome" where
  "create_outcome e opts s = execa e (calls (snd (initialize e s))) (create_cmd opts)"

text \<open>
  The error \<^verbatim>\<open>execa\<close> rejects with when a command cannot be started because its binary
  is missing.  Like every error \<^verbatim>\<open>execa\<close> builds, it carries the command, the escaped
  command and the (empty) output; there is no exit code.
\<close>

definition launch_failure_error :: js_value where
  "launch_failure_error = JObj [(''message'', JStr ''Command failed with ENOENT: docker''),
     (''code'', JStr ''ENOENT''), (''failed'', JBool True),
     (''command'', JStr ''docker''), (''escapedCommand'', JStr ''docker''),
     (''stdout'', JStr []), (''stderr'', JStr [])]"

text \<open>A machine on which no binary is installed: no command can be started.\<close>

definition missing_binary_env :: env where
  "missing_binary_env =
     \<lparr>execa = (\<lambda>k c. Reject launch_failure_error),
      math_random = (\<lambda>k. DFinite 0 0),
      COORDINATOR_HOST = ''127.0.0.1'',
      COORDINATOR_PORT = JNum 8020\<rparr>"

text \<open>Every rejection of the runner carries \<^verbatim>\<open>escapedCommand\<close>, as the errors
  \<^verbatim>\<open>execa\<close> builds do.\<close>

definition rejects_with_child_process :: "env \<Rightarrow> bool" where
  "rejects_with_child_process e = (\<forall>k c v. execa e k c = Reject v \<longrightarrow> isExecaChildProcess v)"

section \<open>Traces\<close>

lemma cmds_append [simp]: "cmds (xs @ ys) = cmds xs @ cmds ys"
  by (induction xs rule: cmds.induct) auto

lemma sleeps_append [simp]: "sleeps (xs @ ys) = sleeps xs @ sleeps ys"
  by (induction xs rule: sleeps.induct) auto

lemma resolved_append [simp]: "resolved (xs @ ys) = resolved xs @ resolved ys"
  by (induction xs rule: resolved.induct) auto

lemma new_events_append: "trace s' = trace s @ B \<Longrightarrow> new_events s s' = B"
  by (simp add: new_events_def)

lemma new_events_self [simp]: "new_events s s = []"
  by (simp add: new_events_def)

section \<open>One command\<close>

lemma run_Resolve:
  "execa e (calls s) c = Resolve r \<Longrightarrow>
   run e c s = (Inr r, s\<lparr>calls := Suc (calls s), trace := trace s @ [Exec c (Resolve r)]\<rparr>)"
  by (simp add: run_def)

lemma run_Reject:
  "execa e (calls s) c = Reject v \<Longrightarrow>
   run e c s = (Inl v, s\<lparr>calls := Suc (calls s), trace := trace s @ [Exec c (Reject v)]\<rparr>)"
  by (simp add: run_def)

section \<open>The delivery loop, one step at a time\<close>

declare runLifecycleCommand.simps [simp del]

lemma rlc_success:
  assumes "execa e (calls s) (DockerExecWget cn port type cause) = Resolve r"
  shows "runLifecycleCommand e cn port type cause rc s =
    (Inr r, s\<lparr>calls := Suc (calls s),
              trace := trace s @ [Exec (DockerExecWget cn port type cause) (Resolve r)]\<rparr>)"
  using assms by (simp add: runLifecycleCommand.simps run_Resolve)

lemma rlc_retry:
  assumes "execa e (calls s) (DockerExecWget cn port PostStart cause) = Reject err" "rc < 6"
  shows "runLifecycleCommand e cn port PostStart cause rc s =
    runLifecycleCommand e cn port PostStart cause (rc + 1)
      (after_retry e rc err (DockerExecWget cn port PostStart cause) s)"
  using assms
  by (subst runLifecycleCommand.simps)
     (simp add: run_Reject logger_def Math_random_def setTimeout_def after_retry_def)

lemma rlc_final:
  assumes "execa e (calls s) (DockerExecWget cn port type cause) = Reject err"
    "type \<noteq> PostStart \<or> 6 \<le> rc"
  shows "runLifecycleCommand e cn port type cause rc s =
    (Inl (new_Error (hook_name type @ '' command failed after '' @ show_int (int rc - 1) @ '' retries'')),
     s\<lparr>calls := Suc (calls s),
       trace := trace s @ [Exec (DockerExecWget cn port type cause) (Reject err),
          Log ErrorLevel [JStr (''final '' @ hook_name type @ '' error''),
                          JObj [(''message'', message_of err)]]]\<rparr>)"
  using assms
  by (subst runLifecycleCommand.simps) (auto simp: run_Reject logger_def)

text \<open>Induction along the retries: a property of the loop holds when it holds where the
  delivery resolves, where it fails for good, and is passed from the retry to the attempt
  that led to it.\<close>

lemma rlc_induct [case_names success retry final]:
  fixes rc :: nat
  assumes success: "\<And>rc s r.
      execa e (calls s) (DockerExecWget cn port type cause) = Resolve r \<Longrightarrow> P rc s"
    and retry: "\<And>rc s err.
      execa e (calls s) (DockerExecWget cn port type cause) = Reject err \<Longrightarrow>
      type = PostStart \<Longrightarrow> rc < 6 \<Longrightarrow>
      P (rc + 1) (after_retry e rc err (DockerExecWget cn port type cause) s) \<Longrightarrow> P rc s"
    and final: "\<And>rc s err.
      execa e (calls s) (DockerExecWget cn port type cause) = Reject err \<Longrightarrow>
      type \<noteq> PostStart \<or> 6 \<le> rc \<Longrightarrow> P rc s"
  shows "P rc (s :: state)"
proof (induction "6 - rc" arbitrary: rc s)
  case (0 rc s)
  show ?case
  proof (cases "execa e (calls s) (DockerExecWget cn port type cause)")
    case (Resolve r)
    then show ?thesis by (rule success)
  next
    case (Reject err)
    moreover have "6 \<le> rc" using 0 by simp
    ultimately show ?thesis by (intro final[of s err]) simp_all
  qed
next
  case (Suc n rc s)
  show ?case
  proof (cases "execa e (calls s) (DockerExecWget cn port type cause)")
    case (Resolve r)
    then show ?thesis by (rule success)
  next
    case (Reject err)
    show ?thesis
    proof (cases "type = PostStart")
      case True
      have lt: "rc < 6" and n: "n = 6 - (rc + 1)" using Suc.hyps(2) by simp_all
      from Suc.hyps(1)[OF n] Reject True lt show ?thesis by (intro retry[of s err]) simp_all
    next
      case False
      with Reject show ?thesis by (intro final[of s err]) simp_all
    qed
  qed
qed

lemma rlc_trace_prefix:
  "\<exists>B. trace (snd (runLifecycleCommand e cn port type cause rc s)) = trace s @ B"
proof (induction rc s rule: rlc_induct[where e = e and cn = cn and port = port
        and type = type and cause = cause])
  case (success rc s r)
  then show ?case by (simp add: rlc_success)
next
  case (retry rc s err)
  then show ?case by (auto simp: rlc_retry after_retry_def)
next
  case (final rc s err)
  then show ?case by (simp add: rlc_final)
qed

lemma rlc_calls:
  "calls s < calls (snd (runLifecycleCommand e cn port type cause rc s))"
proof (induction rc s rule: rlc_induct[where e = e and cn = cn and port = port
        and type = type and cause = cause])
  case (success rc s r)
  then show ?case by (simp add: rlc_success)
next
  case (retry rc s err)
  then show ?case by (auto simp: rlc_retry after_retry_def)
next
  case (final rc s err)
  then show ?case by (simp add: rlc_final)
qed

lemma rlc_cmds:
  "cmds (trace (snd (runLifecycleCommand e cn port type cause rc s))) =
     cmds (trace s) @
     replicate (calls (snd (runLifecycleCommand e cn port type cause rc s)) - calls s)
       (DockerExecWget cn port type cause)"
proof (induction rc s rule: rlc_induct[where e = e and cn = cn and port = port
        and type = type and cause = cause])
  case (success rc s r)
  then show ?case by (simp add: rlc_success)
next
  case (retry rc s err)
  let ?s4 = "after_retry e rc err (DockerExecWget cn port type cause) s"
  let ?s' = "snd (runLifecycleCommand e cn port type cause (rc + 1) ?s4)"
  have "calls ?s4 < calls ?s'" by (rule rlc_calls)
  then have "calls ?s' - calls s = Suc (calls ?s' - calls ?s4)"
    by (simp add: after_retry_def)
  with retry show ?case by (simp add: rlc_retry after_retry_def)
next
  case (final rc s err)
  then show ?case by (simp add: rlc_final)
qed

lemma rlc_attempts_draws:
  "calls (snd (runLifecycleCommand e cn port type cause rc s)) - calls s =
     Suc (draws (snd (runLifecycleCommand e cn port type cause rc s)) - draws s) \<and>
   draws s \<le> draws (snd (runLifecycleCommand e cn port type cause rc s))"
proof (induction rc s rule: rlc_induct[where e = e and cn = cn and port = port
        and type = type and cause = cause])
  case (success rc s r)
  then show ?case by (simp add: rlc_success)
next
  case (retry rc s err)
  let ?s4 = "after_retry e rc err (DockerExecWget cn port type cause) s"
  let ?s' = "snd (runLifecycleCommand e cn port type cause (rc + 1) ?s4)"
  have "calls ?s4 < calls ?s'" by (rule rlc_calls)
  moreover have "calls ?s4 = Suc (calls s)" "draws ?s4 = Suc (draws s)"
    by (simp_all add: after_retry_def)
  ultimately show ?case using retry by (simp add: rlc_retry) linarith
next
  case (final rc s err)
  then show ?case by (simp add: rlc_final)
qed

lemma rlc_attempts_bound:
  "type = PostStart \<Longrightarrow> rc \<le> 6 \<Longrightarrow>
   calls (snd (runLifecycleCommand e cn port type cause rc s)) - calls s \<le> 7 - rc"
proof (induction rc s rule: rlc_induct[where e = e and cn = cn and port = port
        and type = type and cause = cause])
  case (success rc s r)
  then show ?case by (simp add: rlc_success)
next
  case (retry rc s err)
  let ?s4 = "after_retry e rc err (DockerExecWget cn port type cause) s"
  have "calls ?s4 = Suc (calls s)" by (simp add: after_retry_def)
  with retry show ?case by (simp add: rlc_retry)
next
  case (final rc s err)
  then show ?case by (simp add: rlc_final)
qed

lemma rlc_resolved:
  "resolved (trace (snd (runLifecycleCommand e cn port type cause rc s))) =
     resolved (trace s) @
     (case fst (runLifecycleCommand e cn port type cause rc s) of
        Inr r \<Rightarrow> [(DockerExecWget cn port type cause, r)] | Inl error \<Rightarrow> [])"
proof (induction rc s rule: rlc_induct[where e = e and cn = cn and port = port
        and type = type and cause = cause])
  case (success rc s r)
  then show ?case by (simp add: rlc_success)
next
  case (retry rc s err)
  then show ?case by (simp add: rlc_retry after_retry_def)
next
  case (final rc s err)
  then show ?case by (simp add: rlc_final)
qed

lemma rlc_sleeps:
  "sleeps (trace (snd (runLifecycleCommand e cn port type cause rc s))) =
     sleeps (trace s) @
     map (\<lambda>k. exponentialBackoff (rc + k + 1) (DFinite 2 0) (DFinite 50 0)
         (DFinite 1150 0) (DFinite 50 0) (math_random e (draws s + k)))
       [0 ..< draws (snd (runLifecycleCommand e cn port type cause rc s)) - draws s]"
proof (induction rc s rule: rlc_induct[where e = e and cn = cn and port = port
        and type = type and cause = cause])
  case (success rc s r)
  then show ?case by (simp add: rlc_success)
next
  case (retry rc s err)
  let ?s4 = "after_retry e rc err (DockerExecWget cn port type cause) s"
  let ?s' = "snd (runLifecycleCommand e cn port type cause (rc + 1) ?s4)"
  have le: "draws ?s4 \<le> draws ?s'" using rlc_attempts_draws by blast
  have d4: "draws ?s4 = Suc (draws s)" by (simp add: after_retry_def)
  from le d4 have n: "draws ?s' - draws s = Suc (draws ?s' - Suc (draws s))" by simp
  have "sleeps (trace ?s4) = sleeps (trace s) @
      [exponentialBackoff (rc + 1) (DFinite 2 0) (DFinite 50 0)
         (DFinite 1150 0) (DFinite 50 0) (math_random e (draws s))]"
    by (simp add: after_retry_def)
  with retry d4 n show ?case
    by (simp add: rlc_retry map_upt_Suc del: upt_Suc)
next
  case (final rc s err)
  then show ?case by (simp add: rlc_final)
qed

section \<open>What one delivery adds to the trace\<close>

lemma rlc_new_events:
  "trace (snd (runLifecycleCommand e cn port type cause rc s)) =
     trace s @ new_events s (snd (runLifecycleCommand e cn port type cause rc s))"
  using rlc_trace_prefix[of e cn port type cause rc s] by (auto simp: new_events_append)

lemma rlc_new_sleeps:
  "sleeps (new_events s (snd (runLifecycleCommand e cn port type cause rc s))) =
     map (\<lambda>k. exponentialBackoff (rc + k + 1) (DFinite 2 0) (DFinite 50 0)
         (DFinite 1150 0) (DFinite 50 0) (math_random e (draws s + k)))
       [0 ..< draws (snd (runLifecycleCommand e cn port type cause rc s)) - draws s]"
proof -
  let ?s' = "snd (runLifecycleCommand e cn port type cause rc s)"
  have "sleeps (trace ?s') = sleeps (trace s) @ sleeps (new_events s ?s')"
    by (subst rlc_new_events) simp
  then show ?thesis using rlc_sleeps[of e cn port type cause rc s] by simp
qed

lemma rlc_new_cmds:
  "cmds (new_events s (snd (runLifecycleCommand e cn port type cause rc s))) =
     replicate (calls (snd (runLifecycleCommand e cn port type cause rc s)) - calls s)
       (DockerExecWget cn port type cause)"
proof -
  let ?s' = "snd (runLifecycleCommand e cn port type cause rc s)"
  have "cmds (trace ?s') = cmds (trace s) @ cmds (new_events s ?s')"
    by (subst rlc_new_events) simp
  then show ?thesis using rlc_cmds[of e cn port type cause rc s] by simp
qed

lemma rlc_new_resolved:
  "resolved (new_events s (snd (runLifecycleCommand e cn port type cause rc s))) =
     (case fst (runLifecycleCommand e cn port type cause rc s) of
        Inr r \<Rightarrow> [(DockerExecWget cn port type cause, r)] | Inl error \<Rightarrow> [])"
proof -
  let ?s' = "snd (runLifecycleCommand e cn port type cause rc s)"
  have "resolved (trace ?s') = resolved (trace s) @ resolved (new_events s ?s')"
    by (subst rlc_new_events) simp
  then show ?thesis using rlc_resolved[of e cn port type cause rc s] by simp
qed

lemma rlc_retries_bound:
  "draws (snd (runLifecycleCommand e cn port PostStart cause 0 s)) - draws s \<le> 6"
  using rlc_attempts_bound[of PostStart 0 e cn port cause s]
    rlc_attempts_draws[of e cn port PostStart cause 0 s]
  by simp

lemma rlc_step:
  "runLifecycleCommand e cn port type cause rc s =
     (case execa e (calls s) (DockerExecWget cn port type cause) of
        Resolve r \<Rightarrow>
          (Inr r, s\<lparr>calls := Suc (calls s),
                    trace := trace s @ [Exec (DockerExecWget cn port type cause) (Resolve r)]\<rparr>)
      | Reject err \<Rightarrow>
          (if type = PostStart \<and> rc < 6
           then runLifecycleCommand e cn port type cause (rc + 1)
                  (after_retry e rc err (DockerExecWget cn port type cause) s)
           else (Inl (new_Error (hook_name type @ '' command failed after '' @
                        show_int (int rc - 1) @ '' retries'')),
                 s\<lparr>calls := Suc (calls s),
                   trace := trace s @ [Exec (DockerExecWget cn port type cause) (Reject err),
                     Log ErrorLevel [JStr (''final '' @ hook_name type @ '' error''),
                                     JObj [(''message'', message_of err)]]]\<rparr>)))"
  by (cases "execa e (calls s) (DockerExecWget cn port type cause)")
     (auto simp: rlc_success rlc_retry rlc_final not_less)

lemma show_int_5: "show_int 5 = ''5''"
  by code_simp

lemma show_int_minus_1: "show_int (- 1) = ''-1''"
  by code_simp

section \<open>Port discovery, by the outcome of the snapshot\<close>

lemma getHttpServerPort_Resolve:
  assumes "execa e (calls s) (DockerLogs cn) = Resolve logs"
  shows "getHttpServerPort e cn s =
    (if falsy (Number_of_match (regex_match (stdout logs)))
     then Inl (new_Error ''failed to extract port from logs'')
     else Inr (Number_of_match (regex_match (stdout logs))),
     s\<lparr>calls := Suc (calls s),
       trace := trace s @ [Exec (DockerLogs cn) (Resolve logs), Log DebugLevel [result_obj logs]]\<rparr>)"
  using assms by (simp add: getHttpServerPort_def run_Resolve logger_def)

lemma getHttpServerPort_Reject:
  assumes "execa e (calls s) (DockerLogs cn) = Reject err"
  shows "getHttpServerPort e cn s =
    (Inl err, s\<lparr>calls := Suc (calls s), trace := trace s @ [Exec (DockerLogs cn) (Reject err)]\<rparr>)"
  using assms by (simp add: getHttpServerPort_def run_Reject)

lemma getHttpServerPort_state:
  "calls (snd (getHttpServerPort e cn s)) = Suc (calls s) \<and>
   draws (snd (getHttpServerPort e cn s)) = draws s \<and>
   cmds (new_events s (snd (getHttpServerPort e cn s))) = [DockerLogs cn] \<and>
   sleeps (new_events s (snd (getHttpServerPort e cn s))) = [] \<and>
   trace (snd (getHttpServerPort e cn s)) = trace s @ new_events s (snd (getHttpServerPort e cn s))"
  by (cases "execa e (calls s) (DockerLogs cn)")
     (simp_all add: getHttpServerPort_Resolve getHttpServerPort_Reject new_events_def)

lemma sample_snapshot_match: "regex_match sample_snapshot = Some ''4000''"
  by (simp add: sample_snapshot_def match_here_def port_pattern_prefix_def is_digit_def)

lemma decimal_4000: "decimal_value ''4000'' = 4000"
  by (simp add: decimal_value_def digit_value_def)

lemma double_of_nat_exact: "n < 2 ^ 53 \<Longrightarrow> double_of_nat n = Finite n"
  by (simp add: double_of_nat_def)

lemma sample_snapshot_port: "Number_of_match (regex_match sample_snapshot) = Finite 4000"
  by (simp add: sample_snapshot_match Number_of_match_def decimal_4000 double_of_nat_exact)

section \<open>Exhausted retries\<close>

lemma rlc_all_fail:
  assumes "\<forall>k. \<exists>err. execa e k (DockerExecWget cn port PostStart cause) = Reject err"
  shows "rc \<le> 6 \<Longrightarrow>
    fst (runLifecycleCommand e cn port PostStart cause rc s) =
      Inl (new_Error ''postStart command failed after 5 retries'') \<and>
    calls (snd (runLifecycleCommand e cn port PostStart cause rc s)) - calls s = 7 - rc"
proof (induction rc s rule: rlc_induct[where e = e and cn = cn and port = port
        and type = PostStart and cause = cause])
  case (success rc s r)
  from assms obtain err where
    "execa e (calls s) (DockerExecWget cn port PostStart cause) = Reject err" by blast
  with success show ?case by simp
next
  case (retry rc s err)
  let ?s4 = "after_retry e rc err (DockerExecWget cn port PostStart cause) s"
  have "calls ?s4 = Suc (calls s)" by (simp add: after_retry_def)
  moreover have "Suc (calls s) <
      calls (snd (runLifecycleCommand e cn port PostStart cause (rc + 1) ?s4))"
    using rlc_calls[of ?s4 e cn port PostStart cause "rc + 1"] by (simp add: after_retry_def)
  ultimately show ?case using retry by (simp add: rlc_retry) linarith
next
  case (final rc s err)
  then have "rc = 6" by simp
  with final show ?case by (simp add: rlc_final show_int_5)
qed

text \<open>
  Claim C3.  A postStart delivery makes at most 7 attempts (6 retries).  When every
  attempt fails, 7 attempts and 6 sleeps have happened, and the terminal error reads
  \<^verbatim>\<open>postStart command failed after 5 retries\<close>: the message names the signal kind, but its
  number, \<^verbatim>\<open>retryCount - 1\<close>, is neither the 6 retries nor the 7 attempts made.
\<close>

theorem postStart_exhausted_reports_five_retries:
  assumes "s' = snd (runLifecycleCommand e cn port PostStart cause 0 s)"
  shows "length (cmds (new_events s s')) \<le> 7 \<and>
    ((\<forall>k. \<exists>err. execa e k (DockerExecWget cn port PostStart cause) = Reject err) \<longrightarrow>
       fst (runLifecycleCommand e cn port PostStart cause 0 s) =
         Inl (new_Error ''postStart command failed after 5 retries'') \<and>
       cmds (new_events s s') = replicate 7 (DockerExecWget cn port PostStart cause) \<and>
       length (sleeps (new_events s s')) = 6)"
proof -
  have a: "length (cmds (new_events s s')) = calls s' - calls s"
    unfolding assms rlc_new_cmds by simp
  have b: "length (sleeps (new_events s s')) = draws s' - draws s"
    unfolding assms rlc_new_sleeps by simp
  have c: "calls s' - calls s = Suc (draws s' - draws s)"
    unfolding assms using rlc_attempts_draws by blast
  have d: "calls s' - calls s \<le> 7"
    unfolding assms using rlc_attempts_bound[of PostStart 0 e cn port cause s] by simp
  show ?thesis
  proof (intro conjI impI)
    show "length (cmds (new_events s s')) \<le> 7" using a d by simp
  next
    assume all: "\<forall>k. \<exists>err. execa e k (DockerExecWget cn port PostStart cause) = Reject err"
    from rlc_all_fail[OF all, of 0 s]
    have f: "fst (runLifecycleCommand e cn port PostStart cause 0 s) =
        Inl (new_Error ''postStart command failed after 5 retries'')"
      and n: "calls s' - calls s = 7" unfolding assms by simp_all
    show "fst (runLifecycleCommand e cn port PostStart cause 0 s) =
        Inl (new_Error ''postStart command failed after 5 retries'')" by (rule f)
    show "cmds (new_events s s') = replicate 7 (DockerExecWget cn port PostStart cause)"
      using n unfolding assms rlc_new_cmds by simp
    show "length (sleeps (new_events s s')) = 6" using b c n by simp
  qed
qed

text \<open>Witness for C3: a runner whose every command fails.\<close>

theorem postStart_exhausted_reports_five_retries_witness:
  "(\<forall>k. \<exists>err. execa failing_env k
       (DockerExecWget ''task-run-run_9'' (Finite 4000) PostStart ''restore'') = Reject err) \<and>
   fst (runLifecycleCommand failing_env ''task-run-run_9'' (Finite 4000) PostStart ''restore'' 0
         (new_DockerTaskOperations False)) =
     Inl (new_Error ''postStart command failed after 5 retries'') \<and>
   length (cmds (new_events (new_DockerTaskOperations False)
     (snd (runLifecycleCommand failing_env ''task-run-run_9'' (Finite 4000) PostStart ''restore'' 0
         (new_DockerTaskOperations False))))) = 7 \<and>
   length (sleeps (new_events (new_DockerTaskOperations False)
     (snd (runLifecycleCommand failing_env ''task-run-run_9'' (Finite 4000) PostStart ''restore'' 0
         (new_DockerTaskOperations False))))) = 6"
proof -
  have h: "\<forall>k. \<exists>err. execa failing_env k
       (DockerExecWget ''task-run-run_9'' (Finite 4000) PostStart ''restore'') = Reject err"
    by (simp add: failing_env_def)
  from postStart_exhausted_reports_five_retries[OF refl, where e = failing_env
      and cn = "''task-run-run_9''" and port = "Finite 4000" and cause = "''restore''"
      and s = "new_DockerTaskOperations False"] h
  show ?thesis by simp
qed

section \<open>The number of a digit string\<close>

declare bit_length.simps [simp del]

lemma bit_length_lower: "n \<noteq> 0 \<Longrightarrow> 2 ^ (bit_length n - 1) \<le> n"
proof (induction n rule: bit_length.induct)
  case (1 n)
  show ?case
  proof (cases "n div 2 = 0")
    case True
    then have "bit_length (n div 2) = 0" by (simp add: bit_length.simps)
    with "1.prems" show ?thesis by (subst bit_length.simps) simp
  next
    case False
    with "1.IH" "1.prems" have ih: "2 ^ (bit_length (n div 2) - 1) \<le> n div 2" by simp
    from False have "bit_length (n div 2) \<noteq> 0" by (subst bit_length.simps) simp
    then have "(2::nat) ^ bit_length (n div 2) = 2 * 2 ^ (bit_length (n div 2) - 1)"
      by (cases "bit_length (n div 2)") simp_all
    also have "\<dots> \<le> 2 * (n div 2)" using ih by simp
    also have "\<dots> \<le> n" by simp
    finally show ?thesis using "1.prems" by (subst bit_length.simps) simp
  qed
qed

lemma falsy_double_of_nat: "falsy (double_of_nat n) \<longleftrightarrow> n = 0"
proof (cases "n < 2 ^ 53")
  case True
  then show ?thesis by (simp add: double_of_nat_def)
next
  case False
  then have n: "n \<noteq> 0" by auto
  define sh where "sh = bit_length n - 53"
  define q where "q = n div 2 ^ sh"
  define r where "r = n mod 2 ^ sh"
  define q' where "q' = (if 2 ^ (sh - 1) < r \<or> (r = 2 ^ (sh - 1) \<and> odd q) then q + 1 else q)"
  have eq: "double_of_nat n = (if 2 ^ 1024 \<le> q' * 2 ^ sh then PosInfinity else Finite (q' * 2 ^ sh))"
    using False unfolding double_of_nat_def Let_def sh_def q_def r_def q'_def by (rule if_not_P)
  have "2 ^ sh \<le> n"
  proof -
    have "(2::nat) ^ sh \<le> 2 ^ (bit_length n - 1)"
      unfolding sh_def by (rule power_increasing) simp_all
    also have "\<dots> \<le> n" using n by (rule bit_length_lower)
    finally show ?thesis .
  qed
  then have "0 < q" unfolding q_def by (simp add: div_greater_zero_iff)
  then have "0 < q' * 2 ^ sh" unfolding q'_def by simp
  with eq n show ?thesis by simp
qed

section \<open>The regular expression finds the first occurrence\<close>

lemma match_here_pattern_at:
  "match_here s = (if pattern_at s 0 then Some (captured_at s 0) else None)"
  by (cases "drop (length port_pattern_prefix) s")
     (auto simp: match_here_def pattern_at_def captured_at_def Let_def)

lemma pattern_at_Cons [simp]: "pattern_at (c # cs) (Suc i) = pattern_at cs i"
  by (simp add: pattern_at_def)

lemma captured_at_Cons [simp]: "captured_at (c # cs) (Suc i) = captured_at cs i"
  by (simp add: captured_at_def)

lemma pattern_at_Nil [simp]: "\<not> pattern_at [] i"
  by (simp add: pattern_at_def port_pattern_prefix_def)

lemma regex_match_None: "regex_match s = None \<longleftrightarrow> (\<forall>i. \<not> pattern_at s i)"
proof (induction s)
  case Nil
  show ?case by (simp add: match_here_pattern_at)
next
  case (Cons c cs)
  have "(\<forall>i. \<not> pattern_at (c # cs) i) \<longleftrightarrow>
      \<not> pattern_at (c # cs) 0 \<and> (\<forall>i. \<not> pattern_at cs i)"
  proof
    assume "\<forall>i. \<not> pattern_at (c # cs) i"
    then have "\<not> pattern_at (c # cs) 0" and "\<And>i. \<not> pattern_at (c # cs) (Suc i)" by blast+
    then show "\<not> pattern_at (c # cs) 0 \<and> (\<forall>i. \<not> pattern_at cs i)" by simp
  next
    assume a: "\<not> pattern_at (c # cs) 0 \<and> (\<forall>i. \<not> pattern_at cs i)"
    show "\<forall>i. \<not> pattern_at (c # cs) i"
    proof
      fix i show "\<not> pattern_at (c # cs) i" using a by (cases i) simp_all
    qed
  qed
  with Cons show ?case by (simp add: match_here_pattern_at)
qed

lemma first_pattern_at_Suc:
  "first_pattern_at (c # cs) (Suc i) \<longleftrightarrow> \<not> pattern_at (c # cs) 0 \<and> first_pattern_at cs i"
proof -
  have "(\<forall>j < Suc i. \<not> pattern_at (c # cs) j) \<longleftrightarrow>
      \<not> pattern_at (c # cs) 0 \<and> (\<forall>j < i. \<not> pattern_at cs j)"
    by (auto simp: less_Suc_eq_0_disj)
  then show ?thesis by (auto simp: first_pattern_at_def)
qed

lemma regex_match_first:
  "first_pattern_at s i \<Longrightarrow> regex_match s = Some (captured_at s i)"
proof (induction s arbitrary: i)
  case Nil
  then show ?case by (simp add: first_pattern_at_def)
next
  case (Cons c cs)
  show ?case
  proof (cases i)
    case 0
    with Cons.prems show ?thesis by (simp add: first_pattern_at_def match_here_pattern_at)
  next
    case (Suc j)
    with Cons.prems have "\<not> pattern_at (c # cs) 0" "first_pattern_at cs j"
      by (simp_all add: first_pattern_at_Suc)
    with Cons.IH[of j] Suc show ?thesis by (simp add: match_here_pattern_at)
  qed
qed

lemma regex_match_Some:
  "regex_match s = Some ds \<Longrightarrow> \<exists>i. first_pattern_at s i \<and> ds = captured_at s i"
proof (induction s)
  case Nil
  then show ?case by (simp add: match_here_pattern_at)
next
  case (Cons c cs)
  show ?case
  proof (cases "pattern_at (c # cs) 0")
    case True
    with Cons.prems have "first_pattern_at (c # cs) 0 \<and> ds = captured_at (c # cs) 0"
      by (auto simp: match_here_pattern_at first_pattern_at_def)
    then show ?thesis by blast
  next
    case False
    with Cons.prems have "regex_match cs = Some ds" by (simp add: match_here_pattern_at)
    with Cons.IH obtain i where "first_pattern_at cs i" "ds = captured_at cs i" by blast
    with False have "first_pattern_at (c # cs) (Suc i) \<and> ds = captured_at (c # cs) (Suc i)"
      by (simp add: first_pattern_at_Suc)
    then show ?thesis by blast
  qed
qed

lemma getHttpServerPort_no_pattern:
  assumes "execa e (calls s) (DockerLogs cn) = Resolve logs" "\<forall>i. \<not> pattern_at (stdout logs) i"
  shows "fst (getHttpServerPort e cn s) = Inl (new_Error ''failed to extract port from logs'')"
proof -
  have "regex_match (stdout logs) = None" using assms(2) by (simp add: regex_match_None)
  then show ?thesis using assms(1) by (simp add: getHttpServerPort_Resolve Number_of_match_def)
qed

lemma getHttpServerPort_first_pattern:
  assumes "execa e (calls s) (DockerLogs cn) = Resolve logs" "first_pattern_at (stdout logs) i"
  shows "fst (getHttpServerPort e cn s) =
    (if decimal_value (captured_at (stdout logs) i) = 0
     then Inl (new_Error ''failed to extract port from logs'')
     else Inr (double_of_nat (decimal_value (captured_at (stdout logs) i))))"
  using assms(1) regex_match_first[OF assms(2)]
  by (simp add: getHttpServerPort_Resolve Number_of_match_def falsy_double_of_nat)

section \<open>Port discovery\<close>

lemma sample_snapshot_first: "first_pattern_at sample_snapshot 4"
  by (simp add: first_pattern_at_def pattern_at_def sample_snapshot_def port_pattern_prefix_def
      is_digit_def eval_nat_numeral All_less_Suc)

lemma sample_snapshot_captured: "captured_at sample_snapshot 4 = ''4000''"
  by (simp add: captured_at_def sample_snapshot_def port_pattern_prefix_def is_digit_def)

lemma zero_snapshot_first: "first_pattern_at zero_snapshot 0"
  by (simp add: first_pattern_at_def pattern_at_def zero_snapshot_def port_pattern_prefix_def
      is_digit_def)

lemma zero_snapshot_captured: "captured_at zero_snapshot 0 = ''0''"
  by (simp add: captured_at_def zero_snapshot_def port_pattern_prefix_def is_digit_def)

lemma decimal_0: "decimal_value ''0'' = 0"
  by (simp add: decimal_value_def digit_value_def)

lemma sample_env_execa:
  "execa (sample_env out []) k c = Resolve (sample_result out)"
  by (simp add: sample_env_def)

lemma stdout_sample_result [simp]: "stdout (sample_result out) = out"
  by (simp add: sample_result_def)

text \<open>
  Claim C8, as amended.  Port discovery over one snapshot of the container's standard
  output, the \<^verbatim>\<open>docker logs\<close> command having resolved: when the pattern
  \<^verbatim>\<open>http server listening on port <N>\<close> occurs nowhere, the port-extraction error is
  raised; when its first occurrence captures a numeral whose value is not zero and below
  \<open>2 ^ 53\<close> (so that the double holds it exactly), that integer is returned; when the first
  occurrence captures a numeral of value zero, the port-extraction error is raised.
\<close>

theorem port_discovery_first_occurrence:
  assumes "execa e (calls s) (DockerLogs cn) = Resolve logs"
  shows "((\<forall>i. \<not> pattern_at (stdout logs) i) \<longrightarrow>
       fst (getHttpServerPort e cn s) = Inl (new_Error ''failed to extract port from logs'')) \<and>
    (\<forall>i. first_pattern_at (stdout logs) i \<and>
         decimal_value (captured_at (stdout logs) i) \<noteq> 0 \<and>
         decimal_value (captured_at (stdout logs) i) < 2 ^ 53 \<longrightarrow>
       fst (getHttpServerPort e cn s) =
         Inr (Finite (decimal_value (captured_at (stdout logs) i)))) \<and>
    (\<forall>i. first_pattern_at (stdout logs) i \<and> decimal_value (captured_at (stdout logs) i) = 0 \<longrightarrow>
       fst (getHttpServerPort e cn s) = Inl (new_Error ''failed to extract port from logs''))"
  using getHttpServerPort_no_pattern[OF assms] getHttpServerPort_first_pattern[OF assms]
  by (auto simp: double_of_nat_exact)

text \<open>
  Witness for C8: the sample output of the specification,
  \<^verbatim>\<open>...\nhttp server listening on port 4000\n...\<close>, yields 4000.
\<close>

theorem port_discovery_first_occurrence_witness:
  "execa (sample_env sample_snapshot []) (calls (new_DockerTaskOperations False))
     (DockerLogs ''task-run-run_9'') = Resolve (sample_result sample_snapshot) \<and>
   first_pattern_at sample_snapshot 4 \<and>
   decimal_value (captured_at sample_snapshot 4) = 4000 \<and>
   fst (getHttpServerPort (sample_env sample_snapshot []) ''task-run-run_9''
         (new_DockerTaskOperations False)) = Inr (Finite 4000)"
proof -
  have d: "decimal_value (captured_at sample_snapshot 4) = 4000"
    by (simp add: sample_snapshot_captured decimal_4000)
  from port_discovery_first_occurrence[where e = "sample_env sample_snapshot []"
      and s = "new_DockerTaskOperations False" and cn = "''task-run-run_9''"
      and logs = "sample_result sample_snapshot", OF sample_env_execa]
  have "first_pattern_at sample_snapshot 4 \<and>
         decimal_value (captured_at sample_snapshot 4) \<noteq> 0 \<and>
         decimal_value (captured_at sample_snapshot 4) < 2 ^ 53 \<longrightarrow>
       fst (getHttpServerPort (sample_env sample_snapshot []) ''task-run-run_9''
         (new_DockerTaskOperations False)) =
         Inr (Finite (decimal_value (captured_at sample_snapshot 4)))"
    by simp
  with sample_snapshot_first d sample_env_execa show ?thesis by simp
qed

text \<open>
  Counterexample to C8 as stated: the first occurrence of the pattern in
  \<^verbatim>\<open>http server listening on port 0\<close> captures 0, and port discovery raises the
  port-extraction error instead of returning 0.
\<close>

theorem port_discovery_zero_counterexample:
  "first_pattern_at zero_snapshot 0 \<and> captured_at zero_snapshot 0 = ''0'' \<and>
   fst (getHttpServerPort (sample_env zero_snapshot []) ''task-run-run_9''
         (new_DockerTaskOperations False)) = Inl (new_Error ''failed to extract port from logs'') \<and>
   fst (getHttpServerPort (sample_env zero_snapshot []) ''task-run-run_9''
         (new_DockerTaskOperations False)) \<noteq> Inr (Finite 0)"
proof -
  have a: "first_pattern_at (stdout (sample_result zero_snapshot)) 0"
    by (simp add: zero_snapshot_first)
  from getHttpServerPort_first_pattern[where e = "sample_env zero_snapshot []"
      and s = "new_DockerTaskOperations False" and cn = "''task-run-run_9''"
      and logs = "sample_result zero_snapshot", OF sample_env_execa a]
  show ?thesis
    using zero_snapshot_first by (simp add: zero_snapshot_captured decimal_0)
qed

text \<open>
  Claim C10.  When the first match of the pattern in the snapshot captures a numeral of
  value 0, \<^verbatim>\<open>#getHttpServerPort\<close> raises the port-extraction error: the number is
  tested for truthiness.
\<close>

theorem port_zero_rejected:
  assumes "execa e (calls s) (DockerLogs cn) = Resolve logs"
    and "first_pattern_at (stdout logs) i"
    and "decimal_value (captured_at (stdout logs) i) = 0"
  shows "fst (getHttpServerPort e cn s) = Inl (new_Error ''failed to extract port from logs'')"
  using getHttpServerPort_first_pattern[OF assms(1,2)] assms(3) by simp

text \<open>
  Witness for C10: the snapshot \<^verbatim>\<open>http server listening on port 0\<close>.
\<close>

theorem port_zero_rejected_witness:
  "execa (sample_env zero_snapshot []) (calls (new_DockerTaskOperations True))
     (DockerLogs ''task-run-run_9'') = Resolve (sample_result zero_snapshot) \<and>
   first_pattern_at (stdout (sample_result zero_snapshot)) 0 \<and>
   decimal_value (captured_at (stdout (sample_result zero_snapshot)) 0) = 0 \<and>
   fst (getHttpServerPort (sample_env zero_snapshot []) ''task-run-run_9''
         (new_DockerTaskOperations True)) = Inl (new_Error ''failed to extract port from logs'')"
proof -
  have a: "first_pattern_at (stdout (sample_result zero_snapshot)) 0"
    by (simp add: zero_snapshot_first)
  have b: "decimal_value (captured_at (stdout (sample_result zero_snapshot)) 0) = 0"
    by (simp add: zero_snapshot_captured decimal_0)
  from port_zero_rejected[OF sample_env_execa a b] a b sample_env_execa
  show ?thesis by blast
qed

section \<open>Dispatch\<close>

lemma sendPostStart_port_failure:
  assumes "fst (getHttpServerPort e cn s) = Inl err"
  shows "sendPostStart e cn s =
    (Inl (new_Error ''postStart command failed''),
     logger ErrorLevel [JStr ''postStart error'', JObj [(''error'', err)]]
       (snd (getHttpServerPort e cn s)))"
  using assms by (cases "getHttpServerPort e cn s") (simp add: sendPostStart_def)

lemma sendPreStop_port_ok:
  assumes "fst (getHttpServerPort e cn s) = Inr port"
  shows "sendPreStop e cn s =
    (case runLifecycleCommand e cn port PreStop ''terminate'' 0 (snd (getHttpServerPort e cn s)) of
       (Inl error, s2) \<Rightarrow>
         (Inl (new_Error ''preStop command failed''),
          logger ErrorLevel [JStr ''preStop error'', JObj [(''error'', error)]] s2)
     | (Inr r, s2) \<Rightarrow> (Inr (), logger DebugLevel [result_obj r] s2))"
  using assms by (cases "getHttpServerPort e cn s") (simp add: sendPreStop_def)

lemma new_events_logger:
  "trace s1 = trace s @ B \<Longrightarrow> new_events s (logger lvl args s1) = B @ [Log lvl args]"
  by (simp add: new_events_def logger_def)

text \<open>
  Claim C7, as amended.  A failure of port discovery is not retried: when the one
  snapshot \<^verbatim>\<open>#sendPostStart\<close> takes yields no port, the dispatch fails with
  \<^verbatim>\<open>postStart command failed\<close> after that single \<^verbatim>\<open>docker logs\<close> command, with no
  delivery attempt and no backoff sleep.  The retries of \<^verbatim>\<open>#runLifecycleCommand\<close> cover
  the delivery command only, once a port has been found.
\<close>

theorem postStart_port_failure_not_retried:
  assumes "fst (getHttpServerPort e cn s) = Inl err"
  shows "fst (sendPostStart e cn s) = Inl (new_Error ''postStart command failed'') \<and>
    cmds (new_events s (snd (sendPostStart e cn s))) = [DockerLogs cn] \<and>
    sleeps (new_events s (snd (sendPostStart e cn s))) = []"
proof -
  let ?s1 = "snd (getHttpServerPort e cn s)"
  have t: "trace ?s1 = trace s @ new_events s ?s1"
    using getHttpServerPort_state by blast
  have c: "cmds (new_events s ?s1) = [DockerLogs cn]" "sleeps (new_events s ?s1) = []"
    using getHttpServerPort_state[of e cn s] by blast+
  show ?thesis
    unfolding sendPostStart_port_failure[OF assms]
    by (simp add: new_events_logger[OF t] c)
qed

lemma late_port_env_first:
  "fst (getHttpServerPort late_port_env ''task-run-run_9'' (new_DockerTaskOperations False)) =
     Inl (new_Error ''failed to extract port from logs'')"
proof -
  have "execa late_port_env (calls (new_DockerTaskOperations False)) (DockerLogs ''task-run-run_9'') =
      Resolve (sample_result ''starting'')"
    by (simp add: late_port_env_def new_DockerTaskOperations_def)
  moreover have "regex_match ''starting'' = None"
    by (simp add: match_here_def port_pattern_prefix_def)
  ultimately show ?thesis
    by (simp add: getHttpServerPort_Resolve Number_of_match_def)
qed

lemma late_port_env_later:
  "fst (getHttpServerPort late_port_env ''task-run-run_9''
         ((new_DockerTaskOperations False)\<lparr>calls := 1\<rparr>)) = Inr (Finite 4000)"
proof -
  have "execa late_port_env (calls ((new_DockerTaskOperations False)\<lparr>calls := 1\<rparr>))
      (DockerLogs ''task-run-run_9'') = Resolve (sample_result sample_snapshot)"
    by (simp add: late_port_env_def)
  then show ?thesis
    by (simp add: getHttpServerPort_Resolve sample_snapshot_port)
qed

text \<open>
  Witness for C7: the first snapshot lacks the port, any later one would show port 4000,
  and the dispatch fails after the first.
\<close>

theorem postStart_port_failure_not_retried_witness:
  "fst (getHttpServerPort late_port_env ''task-run-run_9'' (new_DockerTaskOperations False)) =
     Inl (new_Error ''failed to extract port from logs'') \<and>
   fst (getHttpServerPort late_port_env ''task-run-run_9''
         ((new_DockerTaskOperations False)\<lparr>calls := 1\<rparr>)) = Inr (Finite 4000) \<and>
   fst (sendPostStart late_port_env ''task-run-run_9'' (new_DockerTaskOperations False)) =
     Inl (new_Error ''postStart command failed'') \<and>
   cmds (new_events (new_DockerTaskOperations False)
     (snd (sendPostStart late_port_env ''task-run-run_9'' (new_DockerTaskOperations False)))) =
     [DockerLogs ''task-run-run_9'']"
  using postStart_port_failure_not_retried[OF late_port_env_first] late_port_env_first
    late_port_env_later
  by blast

text \<open>
  Counterexample to C7 as stated: no execution of \<^verbatim>\<open>#sendPostStart\<close> in which port
  discovery fails ends in success.
\<close>

theorem postStart_port_failure_counterexample:
  "\<not> (\<exists>e cn s err. fst (getHttpServerPort e cn s) = Inl err \<and> fst (sendPostStart e cn s) = Inr ())"
proof
  assume "\<exists>e cn s err. fst (getHttpServerPort e cn s) = Inl err \<and> fst (sendPostStart e cn s) = Inr ()"
  then obtain e cn s err where "fst (getHttpServerPort e cn s) = Inl err"
    and "fst (sendPostStart e cn s) = Inr ()" by blast
  then show False by (simp add: sendPostStart_port_failure)
qed

text \<open>
  Claim C5.  A preStop dispatch whose delivery command fails, the port having been
  discovered, fails at once: the commands issued are the one log snapshot and the one
  delivery attempt, nothing is slept, no random number is drawn, and the caller gets
  \<^verbatim>\<open>preStop command failed\<close>.
\<close>

theorem preStop_not_retried:
  assumes "fst (getHttpServerPort e cn s) = Inr port"
    and "execa e (Suc (calls s)) (DockerExecWget cn port PreStop ''terminate'') = Reject err"
  shows "fst (sendPreStop e cn s) = Inl (new_Error ''preStop command failed'') \<and>
    cmds (new_events s (snd (sendPreStop e cn s))) =
      [DockerLogs cn, DockerExecWget cn port PreStop ''terminate''] \<and>
    sleeps (new_events s (snd (sendPreStop e cn s))) = [] \<and>
    draws (snd (sendPreStop e cn s)) = draws s"
proof -
  let ?s1 = "snd (getHttpServerPort e cn s)"
  have st: "calls ?s1 = Suc (calls s)" "draws ?s1 = draws s"
    "cmds (new_events s ?s1) = [DockerLogs cn]" "sleeps (new_events s ?s1) = []"
    "trace ?s1 = trace s @ new_events s ?s1"
    using getHttpServerPort_state[of e cn s] by blast+
  have rej: "execa e (calls ?s1) (DockerExecWget cn port PreStop ''terminate'') = Reject err"
    using assms(2) st(1) by simp
  have fin: "runLifecycleCommand e cn port PreStop ''terminate'' 0 ?s1 =
      (Inl (new_Error ''preStop command failed after -1 retries''),
       ?s1\<lparr>calls := Suc (calls ?s1),
         trace := trace ?s1 @
           [Exec (DockerExecWget cn port PreStop ''terminate'') (Reject err),
            Log ErrorLevel [JStr ''final preStop error'', JObj [(''message'', message_of err)]]]\<rparr>)"
    using rlc_final[OF rej, of 0] by (simp add: show_int_minus_1)
  let ?B = "new_events s ?s1 @
      [Exec (DockerExecWget cn port PreStop ''terminate'') (Reject err),
       Log ErrorLevel [JStr ''final preStop error'', JObj [(''message'', message_of err)]],
       Log ErrorLevel [JStr ''preStop error'',
         JObj [(''error'', new_Error ''preStop command failed after -1 retries'')]]]"
  have tr: "trace (snd (sendPreStop e cn s)) = trace s @ ?B"
    unfolding sendPreStop_port_ok[OF assms(1)] fin
    by (simp add: logger_def) (subst st(5), simp)
  have ne: "new_events s (snd (sendPreStop e cn s)) = ?B"
    using tr by (rule new_events_append)
  have "fst (sendPreStop e cn s) = Inl (new_Error ''preStop command failed'')"
    unfolding sendPreStop_port_ok[OF assms(1)] fin by simp
  moreover have "draws (snd (sendPreStop e cn s)) = draws s"
    unfolding sendPreStop_port_ok[OF assms(1)] fin by (simp add: logger_def st(2))
  ultimately show ?thesis
    unfolding ne by (simp add: st(3,4))
qed

text \<open>
  Witness for C5: the snapshot shows port 4000 and the delivery exits with code 1.
\<close>

theorem preStop_not_retried_witness:
  "fst (getHttpServerPort (sample_env sample_snapshot [1]) ''task-run-run_9''
         (new_DockerTaskOperations False)) = Inr (Finite 4000) \<and>
   execa (sample_env sample_snapshot [1]) (Suc (calls (new_DockerTaskOperations False)))
     (DockerExecWget ''task-run-run_9'' (Finite 4000) PreStop ''terminate'') =
     Reject sample_exit_error \<and>
   fst (sendPreStop (sample_env sample_snapshot [1]) ''task-run-run_9''
         (new_DockerTaskOperations False)) = Inl (new_Error ''preStop command failed'') \<and>
   sleeps (new_events (new_DockerTaskOperations False)
     (snd (sendPreStop (sample_env sample_snapshot [1]) ''task-run-run_9''
         (new_DockerTaskOperations False)))) = []"
proof -
  have "execa (sample_env sample_snapshot [1]) (calls (new_DockerTaskOperations False))
      (DockerLogs ''task-run-run_9'') = Resolve (sample_result sample_snapshot)"
    by (simp add: sample_env_def new_DockerTaskOperations_def)
  then have a: "fst (getHttpServerPort (sample_env sample_snapshot [1]) ''task-run-run_9''
         (new_DockerTaskOperations False)) = Inr (Finite 4000)"
    by (simp add: getHttpServerPort_Resolve sample_snapshot_port)
  have b: "execa (sample_env sample_snapshot [1]) (Suc (calls (new_DockerTaskOperations False)))
     (DockerExecWget ''task-run-run_9'' (Finite 4000) PreStop ''terminate'') =
     Reject sample_exit_error"
    by (simp add: sample_env_def new_DockerTaskOperations_def)
  from preStop_not_retried[OF a b] a b show ?thesis by blast
qed

section \<open>The probe\<close>

lemma initialize_state:
  "forceSimulate (snd (initialize e s)) = forceSimulate s \<and>
   draws (snd (initialize e s)) = draws s \<and>
   willSimulate (fst (initialize e s)) =
     (\<not> canCheckpoint (snd (initialize e s)) \<or> forceSimulate s) \<and>
   ret_canCheckpoint (fst (initialize e s)) = canCheckpoint (snd (initialize e s))"
  by (cases "execa e (calls s) CriuVersion"; cases "execa e (Suc (calls s)) DockerCheckpoint")
     (simp_all add: initialize_def run_def logger_def Let_def getInitializeReturn_def)

lemma initialize_events:
  "trace (snd (initialize e s)) = trace s @ new_events s (snd (initialize e s)) \<and>
   set (cmds (new_events s (snd (initialize e s)))) \<subseteq> {CriuVersion, DockerCheckpoint} \<and>
   sleeps (new_events s (snd (initialize e s))) = []"
  by (cases "execa e (calls s) CriuVersion"; cases "execa e (Suc (calls s)) DockerCheckpoint")
     (simp_all add: initialize_def run_def logger_def Let_def getInitializeReturn_def new_events_def)

lemma restore_pre_state_events:
  "trace (restore_pre_state e s) = trace s @ new_events s (restore_pre_state e s) \<and>
   set (cmds (new_events s (restore_pre_state e s))) \<subseteq> {CriuVersion, DockerCheckpoint} \<and>
   sleeps (new_events s (restore_pre_state e s)) = [] \<and>
   calls (restore_pre_state e s) = calls (snd (initialize e s))"
proof -
  let ?s1 = "snd (initialize e s)"
  have t: "trace ?s1 = trace s @ new_events s ?s1" using initialize_events by blast
  have n: "new_events s (logger lvl args ?s1) = new_events s ?s1 @ [Log lvl args]" for lvl args
    by (rule new_events_logger[OF t])
  have l: "trace (logger lvl args ?s1) = trace s @ new_events s (logger lvl args ?s1)" for lvl args
    unfolding n by (simp add: logger_def) (subst t, simp)
  have c: "calls (logger lvl args ?s1) = calls ?s1" for lvl args
    by (simp add: logger_def)
  show ?thesis
  proof (cases "willSimulate (fst (initialize e s))")
    case True
    then show ?thesis
      using initialize_events[of e s] by (simp add: restore_pre_state_def n l c)
  next
    case False
    then show ?thesis
      using initialize_events[of e s] by (simp add: restore_pre_state_def)
  qed
qed

section \<open>restore, by the outcome of its runtime command\<close>

lemma restore_Reject:
  assumes "restore_runtime_outcome e opts s = Reject err"
  shows "restore e opts s =
    (Inl err, (restore_pre_state e s)
       \<lparr>calls := Suc (calls (restore_pre_state e s)),
        trace := trace (restore_pre_state e s) @
          [Exec (restore_runtime_cmd e opts s) (Reject err)]\<rparr>)"
  using assms initialize_state[of e s]
  by (cases "initialize e s")
     (auto simp: restore_def restore_runtime_outcome_def restore_runtime_cmd_def
        restore_pre_state_def run_def logger_def Let_def)

lemma restore_Resolve_nonzero:
  assumes "restore_runtime_outcome e opts s = Resolve r" "exitCode r \<noteq> 0"
  shows "restore e opts s = (Inl (restore_guard_error e s), restore_started_state e opts s r)"
  using assms initialize_state[of e s]
  by (cases "initialize e s")
     (auto simp: restore_def restore_runtime_outcome_def restore_runtime_cmd_def
        restore_pre_state_def restore_started_state_def restore_guard_error_def
        run_def logger_def Let_def)

lemma restore_Resolve_zero:
  assumes "restore_runtime_outcome e opts s = Resolve r" "exitCode r = 0"
  shows "restore e opts s =
    sendPostStart e (getRunContainerName (runId opts)) (restore_started_state e opts s r)"
  using assms initialize_state[of e s]
  by (cases "initialize e s")
     (auto simp: restore_def restore_runtime_outcome_def restore_runtime_cmd_def
        restore_pre_state_def restore_started_state_def
        run_def logger_def Let_def)

section \<open>One postStart dispatch\<close>

lemma new_events_trans:
  assumes "trace s1 = trace s @ new_events s s1" "trace s2 = trace s1 @ new_events s1 s2"
  shows "trace s2 = trace s @ new_events s s2 \<and> new_events s s2 = new_events s s1 @ new_events s1 s2"
proof -
  have "trace s2 = trace s @ (new_events s s1 @ new_events s1 s2)"
    by (subst assms(2), subst assms(1)) simp
  then show ?thesis using new_events_append by metis
qed

lemma trace_logger:
  assumes "trace s1 = trace s @ new_events s s1"
  shows "trace (logger lvl args s1) = trace s @ new_events s (logger lvl args s1)"
  unfolding new_events_logger[OF assms] by (simp add: logger_def) (subst assms, simp)

lemma sendPostStart_port_ok:
  assumes "fst (getHttpServerPort e cn s) = Inr port"
  shows "sendPostStart e cn s =
    (case runLifecycleCommand e cn port PostStart ''restore'' 0 (snd (getHttpServerPort e cn s)) of
       (Inl error, s2) \<Rightarrow>
         (Inl (new_Error ''postStart command failed''),
          logger ErrorLevel [JStr ''postStart error'', JObj [(''error'', error)]] s2)
     | (Inr r, s2) \<Rightarrow> (Inr (), logger DebugLevel [result_obj r] s2))"
  using assms by (cases "getHttpServerPort e cn s") (simp add: sendPostStart_def)

lemma sendPostStart_result:
  "fst (sendPostStart e cn s) = Inr () \<or>
   fst (sendPostStart e cn s) = Inl (new_Error ''postStart command failed'')"
proof (cases "fst (getHttpServerPort e cn s)")
  case (Inl err)
  then show ?thesis by (simp add: sendPostStart_port_failure)
next
  case (Inr port)
  then show ?thesis
    by (cases "runLifecycleCommand e cn port PostStart ''restore'' 0 (snd (getHttpServerPort e cn s))")
       (auto simp: sendPostStart_port_ok split: sum.splits)
qed

lemma getHttpServerPort_resolved:
  assumes "fst (getHttpServerPort e cn s) = Inr port"
  shows "\<exists>logs. resolved (new_events s (snd (getHttpServerPort e cn s))) = [(DockerLogs cn, logs)]"
proof (cases "execa e (calls s) (DockerLogs cn)")
  case (Resolve logs)
  then show ?thesis by (simp add: getHttpServerPort_Resolve new_events_def)
next
  case (Reject err)
  with assms show ?thesis by (simp add: getHttpServerPort_Reject)
qed

text \<open>The events of a dispatch: those of the snapshot, those of the delivery, one log line.\<close>

lemma sendPostStart_events:
  "trace (snd (sendPostStart e cn s)) = trace s @ new_events s (snd (sendPostStart e cn s)) \<and>
   sleeps (new_events s (snd (getHttpServerPort e cn s))) = [] \<and>
   (case fst (getHttpServerPort e cn s) of
      Inl err \<Rightarrow>
        fst (sendPostStart e cn s) = Inl (new_Error ''postStart command failed'') \<and>
        cmds (new_events s (snd (sendPostStart e cn s))) = [DockerLogs cn] \<and>
        resolved (new_events s (snd (sendPostStart e cn s))) =
          resolved (new_events s (snd (getHttpServerPort e cn s)))
    | Inr port \<Rightarrow>
        (\<exists>k \<le> 6. cmds (new_events s (snd (sendPostStart e cn s))) =
           DockerLogs cn # replicate (Suc k) (DockerExecWget cn port PostStart ''restore'')) \<and>
        (\<exists>logs. resolved (new_events s (snd (sendPostStart e cn s))) =
           (DockerLogs cn, logs) #
           (case fst (runLifecycleCommand e cn port PostStart ''restore'' 0
                        (snd (getHttpServerPort e cn s))) of
              Inr r \<Rightarrow> [(DockerExecWget cn port PostStart ''restore'', r)] | Inl error \<Rightarrow> [])) \<and>
        (fst (sendPostStart e cn s) = Inr () \<longleftrightarrow>
           (\<exists>r. fst (runLifecycleCommand e cn port PostStart ''restore'' 0
                        (snd (getHttpServerPort e cn s))) = Inr r)))"
proof -
  let ?s1 = "snd (getHttpServerPort e cn s)"
  have st: "calls ?s1 = Suc (calls s)" "cmds (new_events s ?s1) = [DockerLogs cn]"
    "sleeps (new_events s ?s1) = []" "trace ?s1 = trace s @ new_events s ?s1"
    using getHttpServerPort_state[of e cn s] by blast+
  show ?thesis
  proof (cases "fst (getHttpServerPort e cn s)")
    case (Inl err)
    show ?thesis
      unfolding Inl sendPostStart_port_failure[OF Inl]
      by (simp add: trace_logger[OF st(4)] new_events_logger[OF st(4)] st)
  next
    case (Inr port)
    let ?rl = "runLifecycleCommand e cn port PostStart ''restore'' 0 ?s1"
    let ?s2 = "snd ?rl"
    have t2: "trace ?s2 = trace ?s1 @ new_events ?s1 ?s2" by (rule rlc_new_events)
    from new_events_trans[OF st(4) t2]
    have t: "trace ?s2 = trace s @ new_events s ?s2"
      and ne: "new_events s ?s2 = new_events s ?s1 @ new_events ?s1 ?s2" by blast+
    obtain logs where logs: "resolved (new_events s ?s1) = [(DockerLogs cn, logs)]"
      using getHttpServerPort_resolved[OF Inr] by blast
    have k: "calls ?s2 - calls ?s1 \<le> 7" "calls ?s1 < calls ?s2"
      using rlc_attempts_bound[of PostStart 0 e cn port "''restore''" ?s1]
        rlc_calls[of ?s1 e cn port PostStart "''restore''" 0] by simp_all
    then obtain k where kk: "calls ?s2 - calls ?s1 = Suc k" "k \<le> 6"
      by (cases "calls ?s2 - calls ?s1") auto
    have c: "cmds (new_events s ?s2) =
        DockerLogs cn # replicate (Suc k) (DockerExecWget cn port PostStart ''restore'')"
      unfolding ne using kk(1) by (simp add: st(2) rlc_new_cmds)
    have r: "resolved (new_events s ?s2) =
        (DockerLogs cn, logs) #
        (case fst ?rl of Inr r \<Rightarrow> [(DockerExecWget cn port PostStart ''restore'', r)]
         | Inl error \<Rightarrow> [])"
      unfolding ne by (simp add: logs rlc_new_resolved)
    have fin: "\<exists>lvl args. snd (sendPostStart e cn s) = logger lvl args ?s2"
      unfolding sendPostStart_port_ok[OF Inr]
      by (cases ?rl) (auto split: sum.splits)
    then obtain lvl args where s': "snd (sendPostStart e cn s) = logger lvl args ?s2" by blast
    have res: "fst (sendPostStart e cn s) = Inr () \<longleftrightarrow> (\<exists>r. fst ?rl = Inr r)"
      unfolding sendPostStart_port_ok[OF Inr]
      by (cases ?rl) (auto split: sum.splits)
    have "\<exists>k \<le> 6. cmds (new_events s (snd (sendPostStart e cn s))) =
           DockerLogs cn # replicate (Suc k) (DockerExecWget cn port PostStart ''restore'')"
      unfolding s' new_events_logger[OF t] using c kk(2) by auto
    moreover have "\<exists>logs. resolved (new_events s (snd (sendPostStart e cn s))) =
           (DockerLogs cn, logs) #
           (case fst ?rl of Inr r \<Rightarrow> [(DockerExecWget cn port PostStart ''restore'', r)]
            | Inl error \<Rightarrow> [])"
      unfolding s' new_events_logger[OF t] using r by auto
    moreover have "trace (snd (sendPostStart e cn s)) =
        trace s @ new_events s (snd (sendPostStart e cn s))"
      unfolding s' by (rule trace_logger[OF t])
    ultimately show ?thesis
      unfolding Inr using res st(3) by simp
  qed
qed

section \<open>The events of restore\<close>

lemma probe_cmds_filter:
  assumes "set cs \<subseteq> {CriuVersion, DockerCheckpoint}"
  shows "filter is_runtime_cmd cs = []" "filter is_dispatch_cmd cs = []"
    "filter is_unpause cs = []" "filter is_checkpoint_start cs = []"
  using assms by (auto simp: filter_empty_conv is_runtime_cmd_def)

lemma dispatch_cmds_filter:
  "filter is_runtime_cmd (DockerLogs cn # replicate k (DockerExecWget cn port type cause)) = []"
  "filter is_unpause (DockerLogs cn # replicate k (DockerExecWget cn port type cause)) = []"
  "filter is_checkpoint_start (DockerLogs cn # replicate k (DockerExecWget cn port type cause)) = []"
  by (simp_all add: is_runtime_cmd_def)

lemma restore_runtime_cmd_kind:
  "is_runtime_cmd (restore_runtime_cmd e opts s)"
  "\<not> is_dispatch_cmd (restore_runtime_cmd e opts s)"
  "is_unpause (restore_runtime_cmd e opts s) = willSimulate (fst (initialize e s))"
  "is_checkpoint_start (restore_runtime_cmd e opts s) = (\<not> willSimulate (fst (initialize e s)))"
  by (simp_all add: restore_runtime_cmd_def is_runtime_cmd_def)

lemma restore_pre_state_facts:
  "trace (restore_pre_state e s) = trace s @ new_events s (restore_pre_state e s)"
  "set (cmds (new_events s (restore_pre_state e s))) \<subseteq> {CriuVersion, DockerCheckpoint}"
  using restore_pre_state_events[of e s] by blast+

lemma restore_started_state_events:
  "trace (restore_started_state e opts s r) =
     trace s @ new_events s (restore_started_state e opts s r)"
  "new_events s (restore_started_state e opts s r) =
     new_events s (restore_pre_state e s) @
     [Exec (restore_runtime_cmd e opts s) (Resolve r), Log DebugLevel [result_obj r]]"
proof -
  have "trace (restore_started_state e opts s r) =
      trace s @ (new_events s (restore_pre_state e s) @
        [Exec (restore_runtime_cmd e opts s) (Resolve r), Log DebugLevel [result_obj r]])"
    by (simp add: restore_started_state_def) (subst restore_pre_state_facts(1), simp)
  then show "new_events s (restore_started_state e opts s r) =
     new_events s (restore_pre_state e s) @
     [Exec (restore_runtime_cmd e opts s) (Resolve r), Log DebugLevel [result_obj r]]"
    "trace (restore_started_state e opts s r) =
     trace s @ new_events s (restore_started_state e opts s r)"
    using new_events_append by metis+
qed

lemma restore_Reject_events:
  assumes "restore_runtime_outcome e opts s = Reject err"
  shows "new_events s (snd (restore e opts s)) =
    new_events s (restore_pre_state e s) @ [Exec (restore_runtime_cmd e opts s) (Reject err)]"
proof -
  have "trace (snd (restore e opts s)) =
      trace s @ (new_events s (restore_pre_state e s) @
        [Exec (restore_runtime_cmd e opts s) (Reject err)])"
    unfolding restore_Reject[OF assms]
    by simp (subst restore_pre_state_facts(1), simp)
  then show ?thesis by (rule new_events_append)
qed

lemma restore_Resolve_zero_events:
  assumes "restore_runtime_outcome e opts s = Resolve r" "exitCode r = 0"
  shows "new_events s (snd (restore e opts s)) =
    new_events s (restore_pre_state e s) @
    Exec (restore_runtime_cmd e opts s) (Resolve r) #
    Log DebugLevel [result_obj r] #
    new_events (restore_started_state e opts s r)
      (snd (sendPostStart e (getRunContainerName (runId opts)) (restore_started_state e opts s r)))"
proof -
  let ?s4 = "restore_started_state e opts s r"
  let ?s' = "snd (sendPostStart e (getRunContainerName (runId opts)) ?s4)"
  have "trace ?s' = trace ?s4 @ new_events ?s4 ?s'"
    using sendPostStart_events[of e "getRunContainerName (runId opts)" ?s4] by blast
  from new_events_trans[OF restore_started_state_events(1) this]
  show ?thesis
    unfolding restore_Resolve_zero[OF assms] restore_started_state_events(2) by simp
qed

lemma sendPostStart_events_Inr:
  assumes "fst (getHttpServerPort e cn s) = Inr port"
  shows "\<exists>k \<le> 6. cmds (new_events s (snd (sendPostStart e cn s))) =
           DockerLogs cn # replicate (Suc k) (DockerExecWget cn port PostStart ''restore'')"
    and "\<exists>logs. resolved (new_events s (snd (sendPostStart e cn s))) =
           (DockerLogs cn, logs) #
           (case fst (runLifecycleCommand e cn port PostStart ''restore'' 0
                        (snd (getHttpServerPort e cn s))) of
              Inr r \<Rightarrow> [(DockerExecWget cn port PostStart ''restore'', r)] | Inl error \<Rightarrow> [])"
    and "fst (sendPostStart e cn s) = Inr () \<longleftrightarrow>
           (\<exists>r. fst (runLifecycleCommand e cn port PostStart ''restore'' 0
                        (snd (getHttpServerPort e cn s))) = Inr r)"
  using sendPostStart_events[of e cn s] unfolding assms sum.case by blast+

lemma sendPostStart_events_Inl:
  assumes "fst (getHttpServerPort e cn s) = Inl err"
  shows "cmds (new_events s (snd (sendPostStart e cn s))) = [DockerLogs cn]"
  using sendPostStart_events[of e cn s] unfolding assms sum.case by blast

lemma sendPostStart_cmds:
  "\<exists>port k. cmds (new_events s (snd (sendPostStart e cn s))) =
     DockerLogs cn # replicate k (DockerExecWget cn port PostStart ''restore'')"
proof (cases "fst (getHttpServerPort e cn s)")
  case (Inl err)
  have "cmds (new_events s (snd (sendPostStart e cn s))) =
      DockerLogs cn # replicate 0 (DockerExecWget cn NaN PostStart ''restore'')"
    using sendPostStart_events_Inl[OF Inl] by simp
  then show ?thesis by blast
next
  case (Inr port)
  from sendPostStart_events_Inr(1)[OF Inr] show ?thesis by blast
qed

lemma sendPostStart_success:
  assumes "fst (sendPostStart e cn s) = Inr ()"
  shows "\<exists>port k logs r'.
    cmds (new_events s (snd (sendPostStart e cn s))) =
      DockerLogs cn # replicate (Suc k) (DockerExecWget cn port PostStart ''restore'') \<and>
    resolved (new_events s (snd (sendPostStart e cn s))) =
      [(DockerLogs cn, logs), (DockerExecWget cn port PostStart ''restore'', r')]"
proof (cases "fst (getHttpServerPort e cn s)")
  case (Inl err)
  with assms show ?thesis by (simp add: sendPostStart_port_failure)
next
  case (Inr port)
  from sendPostStart_events_Inr(3)[OF Inr] assms
  obtain r' where r': "fst (runLifecycleCommand e cn port PostStart ''restore'' 0
      (snd (getHttpServerPort e cn s))) = Inr r'" by blast
  from sendPostStart_events_Inr(2)[OF Inr]
  obtain logs where l: "resolved (new_events s (snd (sendPostStart e cn s))) =
      [(DockerLogs cn, logs), (DockerExecWget cn port PostStart ''restore'', r')]"
    unfolding r' sum.case by blast
  from sendPostStart_events_Inr(1)[OF Inr]
  obtain k where "cmds (new_events s (snd (sendPostStart e cn s))) =
      DockerLogs cn # replicate (Suc k) (DockerExecWget cn port PostStart ''restore'')"
    by blast
  with l show ?thesis by blast
qed

section \<open>The exit-code guards of restore\<close>

text \<open>
  Claim C9.  Let the runner reject every non-zero exit, as \<^verbatim>\<open>execa\<close> does without
  \<^verbatim>\<open>reject: false\<close>.  Then in every execution of \<^verbatim>\<open>restore\<close> the runtime command either
  rejects, and \<^verbatim>\<open>restore\<close> throws the runner's own value, or resolves with exit code 0,
  and \<^verbatim>\<open>restore\<close> is the postStart dispatch, which returns or throws
  \<^verbatim>\<open>postStart command failed\<close>.  Neither branch is a guard's \<^verbatim>\<open>throw\<close>: should the value
  thrown equal the guard's error, it is the value the runner rejected with.
\<close>

theorem restore_exit_guards_unreachable:
  assumes "rejects_nonzero_exit e"
  shows "(case restore_runtime_outcome e opts s of
            Reject err \<Rightarrow> fst (restore e opts s) = Inl err
          | Resolve r \<Rightarrow>
              exitCode r = 0 \<and>
              restore e opts s =
                sendPostStart e (getRunContainerName (runId opts)) (restore_started_state e opts s r) \<and>
              (fst (restore e opts s) = Inr () \<or>
               fst (restore e opts s) = Inl (new_Error ''postStart command failed''))) \<and>
    (fst (restore e opts s) = Inl (restore_guard_error e s) \<longrightarrow>
       restore_runtime_outcome e opts s = Reject (restore_guard_error e s))"
proof (cases "restore_runtime_outcome e opts s")
  case (Reject err)
  then show ?thesis by (simp add: restore_Reject)
next
  case (Resolve r)
  then have z: "exitCode r = 0"
    using assms by (auto simp: rejects_nonzero_exit_def restore_runtime_outcome_def)
  have eq: "restore e opts s =
      sendPostStart e (getRunContainerName (runId opts)) (restore_started_state e opts s r)"
    by (rule restore_Resolve_zero[OF Resolve z])
  have res: "fst (restore e opts s) = Inr () \<or>
      fst (restore e opts s) = Inl (new_Error ''postStart command failed'')"
    unfolding eq by (rule sendPostStart_result)
  have "fst (restore e opts s) \<noteq> Inl (restore_guard_error e s)"
    using res by (auto simp: restore_guard_error_def new_Error_def)
  with Resolve z eq res show ?thesis by simp
qed

lemma sample_initialize:
  "0 \<notin> set failing \<Longrightarrow> 1 \<notin> set failing \<Longrightarrow>
   initialize (sample_env out failing) (new_DockerTaskOperations True) =
     (\<lparr>ret_canCheckpoint = True, willSimulate = True\<rparr>,
      \<lparr>initialized = True, canCheckpoint = True, forceSimulate = True, calls = 2, draws = 0,
       trace =
         [Log LogLevel [JStr ''Initializing task operations''],
          Log LogLevel [JStr ''Forced simulation enabled. Will simulate regardless of checkpoint support.''],
          Exec CriuVersion (Resolve (sample_result out)),
          Exec DockerCheckpoint (Resolve (sample_result out)),
          Log LogLevel [JStr ''Full checkpoint support!'']]\<rparr>)"
  by (simp add: initialize_def run_def logger_def new_DockerTaskOperations_def sample_env_def
      getInitializeReturn_def Let_def)

lemma sample_env_rejects_nonzero: "rejects_nonzero_exit (sample_env out failing)"
  by (auto simp: rejects_nonzero_exit_def sample_env_def sample_result_def split: if_splits)

lemma sample_restore_outcome:
  "restore_runtime_outcome (sample_env out [2]) sample_restore_opts (new_DockerTaskOperations True) =
     Reject sample_exit_error"
  by (simp add: restore_runtime_outcome_def sample_initialize) (simp add: sample_env_def)

lemma sample_restore_cmd:
  "0 \<notin> set failing \<Longrightarrow> 1 \<notin> set failing \<Longrightarrow>
   restore_runtime_cmd (sample_env out failing) sample_restore_opts (new_DockerTaskOperations True) =
     DockerUnpause ''task-run-run_9''"
  by (simp add: restore_runtime_cmd_def sample_initialize sample_restore_opts_def
      getRunContainerName_def)

text \<open>
  Witness for C9: the unpause command exits with code 1, and \<^verbatim>\<open>restore\<close> throws the
  runner's error.
\<close>

theorem restore_exit_guards_unreachable_witness:
  "rejects_nonzero_exit (sample_env sample_snapshot [2]) \<and>
   restore_runtime_outcome (sample_env sample_snapshot [2]) sample_restore_opts
     (new_DockerTaskOperations True) = Reject sample_exit_error \<and>
   fst (restore (sample_env sample_snapshot [2]) sample_restore_opts
     (new_DockerTaskOperations True)) = Inl sample_exit_error"
  using restore_exit_guards_unreachable[OF sample_env_rejects_nonzero,
      of sample_snapshot "[2]" sample_restore_opts "new_DockerTaskOperations True"]
    sample_env_rejects_nonzero[of sample_snapshot "[2]"]
  by (simp add: sample_restore_outcome)

section \<open>The commands of restore\<close>

lemma restore_cmds:
  "\<exists>D. cmds (new_events s (snd (restore e opts s))) =
         cmds (new_events s (restore_pre_state e s)) @ restore_runtime_cmd e opts s # D \<and>
       (D = [] \<or> (\<exists>port k. D = DockerLogs (getRunContainerName (runId opts)) #
          replicate k (DockerExecWget (getRunContainerName (runId opts)) port PostStart ''restore'')))"
proof (cases "restore_runtime_outcome e opts s")
  case (Reject err)
  then show ?thesis by (simp add: restore_Reject_events)
next
  case (Resolve r)
  show ?thesis
  proof (cases "exitCode r = 0")
    case True
    from sendPostStart_cmds[of "restore_started_state e opts s r" e "getRunContainerName (runId opts)"]
    show ?thesis by (auto simp: restore_Resolve_zero_events[OF Resolve True])
  next
    case False
    then show ?thesis
      by (simp add: restore_Resolve_nonzero[OF Resolve False] restore_started_state_events(2))
  qed
qed

text \<open>
  Claim C4.  \<^verbatim>\<open>willSimulate\<close> is \<^verbatim>\<open>!canCheckpoint || forceSimulate\<close>.  Of the two runtime
  commands, unpause and start from a checkpoint, every \<^verbatim>\<open>restore\<close> issues exactly one,
  once: on the simulated path \<^verbatim>\<open>docker unpause\<close> of the run's container and no
  checkpoint-start command, on the real path \<^verbatim>\<open>docker start --checkpoint=\<close> with the
  given checkpoint reference and no unpause command.  (The probe, the log snapshot and
  the delivery are further commands of a \<^verbatim>\<open>restore\<close>; none of them is a runtime command.)
\<close>

theorem restore_one_runtime_command:
  "willSimulate (fst (initialize e s)) =
     (\<not> ret_canCheckpoint (fst (initialize e s)) \<or> forceSimulate s) \<and>
   filter is_runtime_cmd (cmds (new_events s (snd (restore e opts s)))) =
     [restore_runtime_cmd e opts s] \<and>
   (if willSimulate (fst (initialize e s))
    then restore_runtime_cmd e opts s = DockerUnpause (getRunContainerName (runId opts)) \<and>
         filter is_checkpoint_start (cmds (new_events s (snd (restore e opts s)))) = []
    else restore_runtime_cmd e opts s =
           DockerStartCheckpoint (checkpointRef opts) (getRunContainerName (runId opts)) \<and>
         filter is_unpause (cmds (new_events s (snd (restore e opts s)))) = [])"
proof -
  obtain D where c: "cmds (new_events s (snd (restore e opts s))) =
         cmds (new_events s (restore_pre_state e s)) @ restore_runtime_cmd e opts s # D"
    and D: "D = [] \<or> (\<exists>port k. D = DockerLogs (getRunContainerName (runId opts)) #
          replicate k (DockerExecWget (getRunContainerName (runId opts)) port PostStart ''restore''))"
    using restore_cmds by blast
  from D consider "D = []"
    | port k where "D = DockerLogs (getRunContainerName (runId opts)) #
          replicate k (DockerExecWget (getRunContainerName (runId opts)) port PostStart ''restore'')"
    by blast
  then have D': "filter is_runtime_cmd D = [] \<and> filter is_unpause D = [] \<and>
      filter is_checkpoint_start D = []"
    by cases (simp_all add: is_runtime_cmd_def)
  note p = probe_cmds_filter[OF restore_pre_state_facts(2)[of s e]]
  have w: "willSimulate (fst (initialize e s)) =
     (\<not> ret_canCheckpoint (fst (initialize e s)) \<or> forceSimulate s)"
    using initialize_state[of e s] by simp
  have r: "filter is_runtime_cmd (cmds (new_events s (snd (restore e opts s)))) =
     [restore_runtime_cmd e opts s]"
    unfolding c by (simp add: p D' restore_runtime_cmd_kind)
  show ?thesis
  proof (cases "willSimulate (fst (initialize e s))")
    case True
    have "filter is_checkpoint_start (cmds (new_events s (snd (restore e opts s)))) = []"
      unfolding c by (simp add: p D' restore_runtime_cmd_kind True)
    with True w r show ?thesis by (simp add: restore_runtime_cmd_def)
  next
    case False
    have "filter is_unpause (cmds (new_events s (snd (restore e opts s)))) = []"
      unfolding c by (simp add: p D' restore_runtime_cmd_kind False)
    with False w r show ?thesis by (simp add: restore_runtime_cmd_def)
  qed
qed

text \<open>
  Witness for C4: forced simulation.
\<close>

theorem restore_one_runtime_command_witness:
  "willSimulate (fst (initialize (sample_env sample_snapshot []) (new_DockerTaskOperations True))) \<and>
   filter is_runtime_cmd (cmds (new_events (new_DockerTaskOperations True)
     (snd (restore (sample_env sample_snapshot []) sample_restore_opts
       (new_DockerTaskOperations True))))) = [DockerUnpause ''task-run-run_9''] \<and>
   filter is_checkpoint_start (cmds (new_events (new_DockerTaskOperations True)
     (snd (restore (sample_env sample_snapshot []) sample_restore_opts
       (new_DockerTaskOperations True))))) = []"
  using restore_one_runtime_command[of "sample_env sample_snapshot []" "new_DockerTaskOperations True"
      sample_restore_opts]
  by (simp add: sample_initialize sample_restore_cmd)

section \<open>PostStart after the runtime command\<close>

text \<open>
  Claim C1.  When \<^verbatim>\<open>restore\<close> succeeds, what it did is: events \<open>A\<close> without any command
  of a dispatch, the runtime command resolving with exit code 0, then events \<open>B\<close> whose
  commands are one log snapshot followed by at least one postStart delivery, exactly one
  of the deliveries resolving.  So exactly one postStart dispatch happens, and it begins
  after the runtime command has reported success.  When the runtime command does not
  resolve with exit code 0, \<^verbatim>\<open>restore\<close> throws and issues no command of a dispatch.
\<close>

theorem restore_postStart_after_runtime_success:
  "(fst (restore e opts s) = Inr () \<longrightarrow>
      (\<exists>A r B port k logs r'.
         new_events s (snd (restore e opts s)) =
           A @ Exec (restore_runtime_cmd e opts s) (Resolve r) # B \<and>
         restore_runtime_outcome e opts s = Resolve r \<and> exitCode r = 0 \<and>
         filter is_dispatch_cmd (cmds A) = [] \<and>
         cmds B = DockerLogs (getRunContainerName (runId opts)) #
           replicate (Suc k)
             (DockerExecWget (getRunContainerName (runId opts)) port PostStart ''restore'') \<and>
         resolved B =
           [(DockerLogs (getRunContainerName (runId opts)), logs),
            (DockerExecWget (getRunContainerName (runId opts)) port PostStart ''restore'', r')])) \<and>
   ((\<forall>r. restore_runtime_outcome e opts s = Resolve r \<longrightarrow> exitCode r \<noteq> 0) \<longrightarrow>
      (\<exists>err. fst (restore e opts s) = Inl err) \<and>
      filter is_dispatch_cmd (cmds (new_events s (snd (restore e opts s)))) = [])"
proof (intro conjI impI)
  assume ok: "fst (restore e opts s) = Inr ()"
  let ?cn = "getRunContainerName (runId opts)"
  show "\<exists>A r B port k logs r'.
         new_events s (snd (restore e opts s)) =
           A @ Exec (restore_runtime_cmd e opts s) (Resolve r) # B \<and>
         restore_runtime_outcome e opts s = Resolve r \<and> exitCode r = 0 \<and>
         filter is_dispatch_cmd (cmds A) = [] \<and>
         cmds B = DockerLogs ?cn # replicate (Suc k) (DockerExecWget ?cn port PostStart ''restore'') \<and>
         resolved B =
           [(DockerLogs ?cn, logs), (DockerExecWget ?cn port PostStart ''restore'', r')]"
  proof (cases "restore_runtime_outcome e opts s")
    case (Reject err)
    with ok show ?thesis by (simp add: restore_Reject)
  next
    case (Resolve r)
    show ?thesis
    proof (cases "exitCode r = 0")
      case False
      with ok Resolve show ?thesis by (simp add: restore_Resolve_nonzero)
    next
      case True
      let ?s4 = "restore_started_state e opts s r"
      let ?s' = "snd (sendPostStart e ?cn ?s4)"
      have eq: "restore e opts s = sendPostStart e ?cn ?s4"
        by (rule restore_Resolve_zero[OF Resolve True])
      from ok have "fst (sendPostStart e ?cn ?s4) = Inr ()" by (simp add: eq)
      from sendPostStart_success[OF this]
      obtain port k logs r' where
        c: "cmds (new_events ?s4 ?s') =
            DockerLogs ?cn # replicate (Suc k) (DockerExecWget ?cn port PostStart ''restore'')"
        and rs: "resolved (new_events ?s4 ?s') =
            [(DockerLogs ?cn, logs), (DockerExecWget ?cn port PostStart ''restore'', r')]"
        by blast
      let ?A = "new_events s (restore_pre_state e s)"
      let ?B = "Log DebugLevel [result_obj r] # new_events ?s4 ?s'"
      have "new_events s (snd (restore e opts s)) =
          ?A @ Exec (restore_runtime_cmd e opts s) (Resolve r) # ?B"
        by (rule restore_Resolve_zero_events[OF Resolve True])
      moreover have "filter is_dispatch_cmd (cmds ?A) = []"
        by (rule probe_cmds_filter[OF restore_pre_state_facts(2)])
      moreover have "cmds ?B =
          DockerLogs ?cn # replicate (Suc k) (DockerExecWget ?cn port PostStart ''restore'')"
        using c by simp
      moreover have "resolved ?B =
          [(DockerLogs ?cn, logs), (DockerExecWget ?cn port PostStart ''restore'', r')]"
        using rs by simp
      ultimately show ?thesis using Resolve True by blast
    qed
  qed
next
  assume fail: "\<forall>r. restore_runtime_outcome e opts s = Resolve r \<longrightarrow> exitCode r \<noteq> 0"
  note p = probe_cmds_filter(2)[OF restore_pre_state_facts(2)[of s e]]
  have "(\<exists>err. fst (restore e opts s) = Inl err) \<and>
      filter is_dispatch_cmd (cmds (new_events s (snd (restore e opts s)))) = []"
  proof (cases "restore_runtime_outcome e opts s")
    case (Reject err)
    then show ?thesis
      by (simp add: restore_Reject_events p restore_runtime_cmd_kind) (simp add: restore_Reject)
  next
    case (Resolve r)
    with fail have nz: "exitCode r \<noteq> 0" by simp
    show ?thesis
      by (simp add: restore_Resolve_nonzero[OF Resolve nz] restore_started_state_events(2)
          p restore_runtime_cmd_kind)
  qed
  then show "\<exists>err. fst (restore e opts s) = Inl err"
    and "filter is_dispatch_cmd (cmds (new_events s (snd (restore e opts s)))) = []"
    by blast+
qed

lemma sample_sendPostStart_ok:
  "fst (sendPostStart (sample_env sample_snapshot []) cn s) = Inr ()"
proof -
  have p: "fst (getHttpServerPort (sample_env sample_snapshot []) cn s) = Inr (Finite 4000)"
    by (simp add: getHttpServerPort_Resolve[OF sample_env_execa] sample_snapshot_port)
  show ?thesis
    unfolding sendPostStart_port_ok[OF p]
    by (simp add: rlc_success[OF sample_env_execa])
qed

lemma sample_restore_ok:
  "restore_runtime_outcome (sample_env sample_snapshot []) sample_restore_opts
     (new_DockerTaskOperations True) = Resolve (sample_result sample_snapshot)"
  "fst (restore (sample_env sample_snapshot []) sample_restore_opts (new_DockerTaskOperations True)) =
     Inr ()"
proof -
  show o: "restore_runtime_outcome (sample_env sample_snapshot []) sample_restore_opts
     (new_DockerTaskOperations True) = Resolve (sample_result sample_snapshot)"
    by (simp add: restore_runtime_outcome_def sample_env_execa)
  have z: "exitCode (sample_result sample_snapshot) = 0" by (simp add: sample_result_def)
  show "fst (restore (sample_env sample_snapshot []) sample_restore_opts
      (new_DockerTaskOperations True)) = Inr ()"
    unfolding restore_Resolve_zero[OF o z] by (rule sample_sendPostStart_ok)
qed

text \<open>
  Witness for C1: a restore in which every command succeeds, and one whose unpause
  command exits with code 1.
\<close>

theorem restore_postStart_after_runtime_success_witness:
  "fst (restore (sample_env sample_snapshot []) sample_restore_opts (new_DockerTaskOperations True)) =
     Inr () \<and>
   (\<exists>A r B port k logs r'.
      new_events (new_DockerTaskOperations True)
        (snd (restore (sample_env sample_snapshot []) sample_restore_opts
          (new_DockerTaskOperations True))) =
        A @ Exec (DockerUnpause ''task-run-run_9'') (Resolve r) # B \<and>
      exitCode r = 0 \<and>
      filter is_dispatch_cmd (cmds A) = [] \<and>
      cmds B = DockerLogs ''task-run-run_9'' #
        replicate (Suc k) (DockerExecWget ''task-run-run_9'' port PostStart ''restore'') \<and>
      resolved B =
        [(DockerLogs ''task-run-run_9'', logs),
         (DockerExecWget ''task-run-run_9'' port PostStart ''restore'', r')]) \<and>
   restore_runtime_outcome (sample_env sample_snapshot [2]) sample_restore_opts
     (new_DockerTaskOperations True) = Reject sample_exit_error \<and>
   (\<exists>err. fst (restore (sample_env sample_snapshot [2]) sample_restore_opts
      (new_DockerTaskOperations True)) = Inl err) \<and>
   filter is_dispatch_cmd (cmds (new_events (new_DockerTaskOperations True)
     (snd (restore (sample_env sample_snapshot [2]) sample_restore_opts
       (new_DockerTaskOperations True))))) = []"
proof -
  have n: "getRunContainerName (runId sample_restore_opts) = ''task-run-run_9''"
    by (simp add: getRunContainerName_def sample_restore_opts_def)
  have c: "restore_runtime_cmd (sample_env sample_snapshot []) sample_restore_opts
      (new_DockerTaskOperations True) = DockerUnpause ''task-run-run_9''"
    by (simp add: sample_restore_cmd)
  from restore_postStart_after_runtime_success[of "sample_env sample_snapshot []"
      sample_restore_opts "new_DockerTaskOperations True"] sample_restore_ok(2)
  have "\<exists>A r B port k logs r'.
      new_events (new_DockerTaskOperations True)
        (snd (restore (sample_env sample_snapshot []) sample_restore_opts
          (new_DockerTaskOperations True))) =
        A @ Exec (DockerUnpause ''task-run-run_9'') (Resolve r) # B \<and>
      restore_runtime_outcome (sample_env sample_snapshot []) sample_restore_opts
        (new_DockerTaskOperations True) = Resolve r \<and>
      exitCode r = 0 \<and>
      filter is_dispatch_cmd (cmds A) = [] \<and>
      cmds B = DockerLogs ''task-run-run_9'' #
        replicate (Suc k) (DockerExecWget ''task-run-run_9'' port PostStart ''restore'') \<and>
      resolved B =
        [(DockerLogs ''task-run-run_9'', logs),
         (DockerExecWget ''task-run-run_9'' port PostStart ''restore'', r')]"
    unfolding n c by blast
  then have a: "\<exists>A r B port k logs r'.
      new_events (new_DockerTaskOperations True)
        (snd (restore (sample_env sample_snapshot []) sample_restore_opts
          (new_DockerTaskOperations True))) =
        A @ Exec (DockerUnpause ''task-run-run_9'') (Resolve r) # B \<and>
      exitCode r = 0 \<and>
      filter is_dispatch_cmd (cmds A) = [] \<and>
      cmds B = DockerLogs ''task-run-run_9'' #
        replicate (Suc k) (DockerExecWget ''task-run-run_9'' port PostStart ''restore'') \<and>
      resolved B =
        [(DockerLogs ''task-run-run_9'', logs),
         (DockerExecWget ''task-run-run_9'' port PostStart ''restore'', r')]"
    by blast
  have f: "\<forall>r. restore_runtime_outcome (sample_env sample_snapshot [2]) sample_restore_opts
      (new_DockerTaskOperations True) = Resolve r \<longrightarrow> exitCode r \<noteq> 0"
    by (simp add: sample_restore_outcome)
  from restore_postStart_after_runtime_success[of "sample_env sample_snapshot [2]"
      sample_restore_opts "new_DockerTaskOperations True"] f
  have b: "(\<exists>err. fst (restore (sample_env sample_snapshot [2]) sample_restore_opts
      (new_DockerTaskOperations True)) = Inl err) \<and>
    filter is_dispatch_cmd (cmds (new_events (new_DockerTaskOperations True)
     (snd (restore (sample_env sample_snapshot [2]) sample_restore_opts
       (new_DockerTaskOperations True))))) = []"
    by blast
  from sample_restore_ok(2) a sample_restore_outcome[of sample_snapshot] b
  show ?thesis by (intro conjI) blast+
qed

section \<open>Double arithmetic\<close>

lemma bit_length_numeral [simp]:
  "bit_length 0 = 0"
  "bit_length (Suc 0) = 1"
  "bit_length (numeral Num.One) = 1"
  "bit_length (numeral (Num.Bit0 k)) = Suc (bit_length (numeral k))"
  "bit_length (numeral (Num.Bit1 k)) = Suc (bit_length (numeral k))"
proof -
  show "bit_length 0 = 0" by (simp add: bit_length.simps)
  have z: "bit_length 0 = 0" by (simp add: bit_length.simps)
  show s: "bit_length (Suc 0) = 1" by (subst bit_length.simps) (simp add: z)
  show "bit_length (numeral Num.One) = 1" using s by simp
  show "bit_length (numeral (Num.Bit0 k)) = Suc (bit_length (numeral k))"
    by (subst bit_length.simps) simp
  show "bit_length (numeral (Num.Bit1 k)) = Suc (bit_length (numeral k))"
    by (subst bit_length.simps) simp
qed

section \<open>Rounding\<close>

lemma round_shift_0 [simp]: "round_shift m 0 = m"
  by (simp add: round_shift_def)

lemma round_shift_le:
  assumes "m \<le> K * 2 ^ sh"
  shows "round_shift m sh \<le> K"
proof -
  let ?q = "m div 2 ^ sh" and ?r = "m mod 2 ^ sh"
  have m: "?q * 2 ^ sh + ?r = m" by (rule div_mult_mod_eq)
  have "?q \<le> (K * 2 ^ sh) div 2 ^ sh" using assms by (rule div_le_mono)
  then have q: "?q \<le> K" by simp
  show ?thesis
  proof (cases "2 ^ sh < 2 * ?r \<or> (2 * ?r = 2 ^ sh \<and> odd ?q)")
    case False
    then show ?thesis using q by (auto simp: round_shift_def Let_def)
  next
    case True
    then have r: "0 < ?r" by (cases "?r = 0") auto
    have "?q \<noteq> K"
    proof
      assume "?q = K"
      with m have "m = K * 2 ^ sh + ?r" by simp
      with r assms show False by simp
    qed
    with q have "?q + 1 \<le> K" by simp
    with True show ?thesis by (simp add: round_shift_def Let_def)
  qed
qed

lemma round_shift_ge:
  assumes "K * 2 ^ sh \<le> m"
  shows "K \<le> round_shift m sh"
proof -
  have "(K * 2 ^ sh) div 2 ^ sh \<le> m div 2 ^ sh" using assms by (rule div_le_mono)
  then have "K \<le> m div 2 ^ sh" by simp
  then show ?thesis by (simp add: round_shift_def Let_def)
qed

lemma round_shift_error:
  "2 * (round_shift m sh * 2 ^ sh) \<le> 2 * m + 2 ^ sh \<and>
   2 * m \<le> 2 * (round_shift m sh * 2 ^ sh) + 2 ^ sh"
proof -
  define S :: nat where "S = 2 ^ sh"
  define q where "q = m div S"
  define r where "r = m mod S"
  have m: "m = q * S + r" unfolding q_def r_def by (rule div_mult_mod_eq[symmetric])
  have r: "r < S" unfolding r_def S_def by simp
  show ?thesis
  proof (cases "S < 2 * r \<or> (2 * r = S \<and> odd q)")
    case True
    then have rs: "round_shift m sh = q + 1"
      by (simp add: round_shift_def Let_def q_def r_def S_def)
    from True have "S \<le> 2 * r" by auto
    then have "2 * ((q + 1) * S) \<le> 2 * (q * S + r) + S \<and>
        2 * (q * S + r) \<le> 2 * ((q + 1) * S) + S"
      using r by (simp add: algebra_simps)
    then show ?thesis using m rs by (simp add: S_def)
  next
    case False
    then have rs: "round_shift m sh = q"
      by (auto simp: round_shift_def Let_def q_def r_def S_def)
    from False have "2 * r \<le> S" by auto
    then have "2 * (q * S) \<le> 2 * (q * S + r) + S \<and>
        2 * (q * S + r) \<le> 2 * (q * S) + S"
      by (simp add: algebra_simps)
    then show ?thesis using m rs by (simp add: S_def)
  qed
qed

lemma bit_length_upper: "n < 2 ^ k \<Longrightarrow> bit_length n \<le> k"
proof (induction k arbitrary: n)
  case 0
  then show ?case by (simp add: bit_length.simps)
next
  case (Suc k)
  show ?case
  proof (cases "n = 0")
    case True
    then show ?thesis by (simp add: bit_length.simps)
  next
    case False
    from Suc.prems have "n div 2 < 2 ^ k" by simp
    then have "bit_length (n div 2) \<le> k" by (rule Suc.IH)
    with False show ?thesis by (subst bit_length.simps) simp
  qed
qed

section \<open>Values of rounded numbers\<close>

lemma two_powi_pos [simp]: "0 < (2::real) powi a"
  by (simp add: power_int_def)

lemma two_powi_add: "(2::real) powi (a + b) = 2 powi a * 2 powi b"
  by (simp add: power_int_add)

lemma scaled_value:
  assumes "t = e + int sh"
  shows "real m * 2 powi e = (real m / 2 ^ sh) * 2 powi t"
  unfolding assms by (simp add: two_powi_add)

lemma grid_value:
  assumes "t \<le> 0"
  shows "real (c * 2 ^ nat (- t)) * 2 powi t = real c"
proof -
  obtain n where n: "t = - int n" using assms by (metis nat_0_le neg_le_0_iff_le minus_minus)
  show ?thesis unfolding n by (simp add: power_int_minus)
qed

lemma rounded_le:
  assumes t: "t = e + int sh" and "t \<le> 0" "real m * 2 powi e \<le> real c"
  shows "real (round_shift m sh) * 2 powi t \<le> real c"
proof -
  let ?u = "(2::real) powi t"
  let ?K = "c * 2 ^ nat (- t)"
  have "(real m / 2 ^ sh) * ?u \<le> real ?K * ?u"
    using assms(3) unfolding grid_value[OF assms(2)] scaled_value[OF t, of m] .
  then have "real m / 2 ^ sh \<le> real ?K" by (rule mult_right_le_imp_le) simp
  then have "real m \<le> real ?K * 2 ^ sh" by (simp add: field_simps)
  then have "real m \<le> real (?K * 2 ^ sh)" by simp
  then have "m \<le> ?K * 2 ^ sh" by (simp only: of_nat_le_iff)
  then have "round_shift m sh \<le> ?K" by (rule round_shift_le)
  then have "real (round_shift m sh) \<le> real ?K" by (rule of_nat_mono)
  then have "real (round_shift m sh) * ?u \<le> real ?K * ?u"
    by (rule mult_right_mono) (rule less_imp_le[OF two_powi_pos])
  then show ?thesis unfolding grid_value[OF assms(2)] .
qed

lemma rounded_ge:
  assumes t: "t = e + int sh" and "t \<le> 0" "real c \<le> real m * 2 powi e"
  shows "real c \<le> real (round_shift m sh) * 2 powi t"
proof -
  let ?u = "(2::real) powi t"
  let ?K = "c * 2 ^ nat (- t)"
  have "real ?K * ?u \<le> (real m / 2 ^ sh) * ?u"
    using assms(3) unfolding grid_value[OF assms(2)] scaled_value[OF t, of m] .
  then have "real ?K \<le> real m / 2 ^ sh" by (rule mult_right_le_imp_le) simp
  then have "real ?K * 2 ^ sh \<le> real m" by (simp add: field_simps)
  then have "real (?K * 2 ^ sh) \<le> real m" by simp
  then have "?K * 2 ^ sh \<le> m" by (simp only: of_nat_le_iff)
  then have "?K \<le> round_shift m sh" by (rule round_shift_ge)
  then have "real ?K \<le> real (round_shift m sh)" by (rule of_nat_mono)
  then have "real ?K * ?u \<le> real (round_shift m sh) * ?u"
    by (rule mult_right_mono) (rule less_imp_le[OF two_powi_pos])
  then show ?thesis unfolding grid_value[OF assms(2)] .
qed

lemma rounded_error:
  assumes t: "t = e + int sh"
  shows "\<bar>real (round_shift m sh) * 2 powi t - real m * 2 powi e\<bar> \<le> 2 powi t / 2"
proof -
  let ?u = "(2::real) powi t"
  let ?q = "real (round_shift m sh)"
  let ?x = "real m / 2 ^ sh"
  from round_shift_error[of m sh]
  have "real (2 * (round_shift m sh * 2 ^ sh)) \<le> real (2 * m + 2 ^ sh)"
    and "real (2 * m) \<le> real (2 * (round_shift m sh * 2 ^ sh) + 2 ^ sh)"
    by (simp_all only: of_nat_le_iff)
  then have a: "?q \<le> ?x + 1 / 2" and b: "?x \<le> ?q + 1 / 2"
    by (simp_all add: field_simps)
  have "\<bar>?q - ?x\<bar> \<le> 1 / 2" using a b by linarith
  then have "\<bar>?q - ?x\<bar> * ?u \<le> (1 / 2) * ?u"
    by (rule mult_right_mono) simp
  moreover have "?q * ?u - ?x * ?u = (?q - ?x) * ?u" by (simp add: left_diff_distrib)
  then have "\<bar>?q * ?u - ?x * ?u\<bar> = \<bar>?q - ?x\<bar> * ?u"
    by (simp only: abs_mult abs_of_pos[OF two_powi_pos])
  ultimately show ?thesis unfolding scaled_value[OF t, of m] by simp
qed

lemma two_powi_nat: "0 \<le> t \<Longrightarrow> (2::real) powi t = 2 ^ nat t"
  by (simp add: power_int_def)

lemma two_powi_mono: "a \<le> b \<Longrightarrow> (2::real) powi a \<le> 2 powi b"
  by (rule power_int_increasing) simp_all

lemma nat_less_two_powi:
  assumes "real M < 2 powi k" "0 < M"
  shows "0 \<le> k \<and> M < 2 ^ nat k"
proof -
  have k: "0 \<le> k"
  proof (rule ccontr)
    assume "\<not> 0 \<le> k"
    then have "(2::real) powi k \<le> 2 powi 0" by (intro two_powi_mono) simp
    with assms show False by simp
  qed
  with assms(1) have "real M < real (2 ^ nat k)" by (simp add: two_powi_nat)
  then have "M < 2 ^ nat k" by (simp only: of_nat_less_iff)
  with k show ?thesis by simp
qed

text \<open>The exponent a product or sum is rounded to, when its value is below \<open>2 ^ j\<close>.\<close>

lemma round_exponent:
  assumes "- 1074 \<le> e" "real M * 2 powi e < 2 ^ j"
  defines "sh \<equiv> nat (max (int (bit_length M) - 53) (- 1074 - e))"
  shows "sh = 0 \<or> e + int sh \<le> int j - 53"
proof (cases "sh = 0")
  case False
  then have bl: "53 < bit_length M" using assms(1) unfolding sh_def by auto
  then have M: "0 < M" by (cases "M = 0") (simp_all add: bit_length.simps)
  have "real M * 2 powi e * 2 powi (- e) < 2 ^ j * 2 powi (- e)"
    using assms(2) by (rule mult_strict_right_mono) simp
  moreover have "(2::real) powi e * 2 powi (- e) = 1"
    by (simp add: power_int_minus)
  moreover have "(2::real) ^ j * 2 powi (- e) = 2 powi (int j - e)"
    by (simp add: two_powi_add[of "int j" "- e", simplified])
  ultimately have "real M < 2 powi (int j - e)" by (simp add: mult.assoc)
  from nat_less_two_powi[OF this M] have "0 \<le> int j - e" "M < 2 ^ nat (int j - e)" by simp_all
  then have "bit_length M \<le> nat (int j - e)" by (intro bit_length_upper)
  then have "int (bit_length M) \<le> int j - e" using \<open>0 \<le> int j - e\<close> by simp
  moreover have "int sh = int (bit_length M) - 53" using bl assms(1) unfolding sh_def by simp
  ultimately show ?thesis by simp
qed simp

lemma round_double_small:
  assumes "- 1074 \<le> e" "real M * 2 powi e < 2 ^ j" "j \<le> 1024"
  defines "sh \<equiv> nat (max (int (bit_length M) - 53) (- 1074 - e))"
  assumes le: "real (round_shift M sh) * 2 powi (e + int sh) < 2 ^ 1024"
  shows "round_double M e = DFinite (round_shift M sh) (e + int sh)"
proof -
  have "\<not> (0 \<le> e + int sh \<and> 2 ^ 1024 \<le> round_shift M sh * 2 ^ nat (e + int sh))"
  proof
    assume a: "0 \<le> e + int sh \<and> 2 ^ 1024 \<le> round_shift M sh * 2 ^ nat (e + int sh)"
    then have "real (2 ^ 1024) \<le> real (round_shift M sh * 2 ^ nat (e + int sh))"
      by (simp only: of_nat_le_iff)
    with a le show False by (simp add: two_powi_nat)
  qed
  then show ?thesis unfolding round_double_def Let_def sh_def by simp
qed

lemma unit_double_le:
  assumes "m < 2 ^ 53" "real m * 2 powi e < 1"
  shows "real m * 2 powi e \<le> 1 - 2 powi (- 53)"
proof (cases "- 53 \<le> e")
  case True
  define n where "n = nat (e + 53)"
  have e: "e = int n + (- 53)" using True by (simp add: n_def)
  have p: "(2::real) powi e = 2 ^ n * 2 powi (- 53)"
    by (subst e, subst two_powi_add) simp
  have "real (m * 2 ^ n) * 2 powi (- 53) < 1" using assms(2) by (simp add: p mult.assoc)
  then have "real (m * 2 ^ n) < 2 ^ 53" by (simp add: power_int_minus field_simps)
  then have "real (m * 2 ^ n) < real (2 ^ 53)" by simp
  then have "m * 2 ^ n < 2 ^ 53" by (simp only: of_nat_less_iff)
  then have "m * 2 ^ n \<le> 2 ^ 53 - 1" by simp
  then have "real (m * 2 ^ n) \<le> real (2 ^ 53 - 1)" by (rule of_nat_mono)
  then have "real (m * 2 ^ n) \<le> 2 ^ 53 - 1" by simp
  then have "real (m * 2 ^ n) * 2 powi (- 53) \<le> (2 ^ 53 - 1) * 2 powi (- 53)"
    by (rule mult_right_mono) simp
  then show ?thesis by (simp add: p mult.assoc power_int_minus field_simps)
next
  case False
  then have "(2::real) powi e \<le> 2 powi (- 54)" by (intro two_powi_mono) simp
  moreover have "real m \<le> 2 ^ 53" using assms(1)
    by (metis less_imp_le of_nat_le_iff of_nat_numeral of_nat_power)
  ultimately have "real m * 2 powi e \<le> 2 ^ 53 * 2 powi (- 54)"
    by (intro mult_mono) simp_all
  then show ?thesis by (simp add: power_int_minus)
qed

section \<open>The jitter and the delay\<close>

lemma jitter_bounds:
  assumes "m < 2 ^ 53" "- 1074 \<le> e" "real m * 2 powi e < 1"
  shows "\<exists>q t. d_mult (DFinite m e) (DFinite 50 0) = DFinite q t \<and> - 1074 \<le> t \<and>
           real q * 2 powi t < 50 \<and>
           \<bar>real q * 2 powi t - 50 * (real m * 2 powi e)\<bar> \<le> 2 powi (- 48)"
proof -
  define M where "M = m * 50"
  define sh where "sh = nat (max (int (bit_length M) - 53) (- 1074 - e))"
  define t where "t = e + int sh"
  define q where "q = round_shift M sh"
  have x: "real M * 2 powi e = 50 * (real m * 2 powi e)" by (simp add: M_def)
  have x50: "real M * 2 powi e \<le> 50 * (1 - 2 powi (- 53))"
    using unit_double_le[OF assms(1,3)] unfolding x by simp
  have xlt: "real M * 2 powi e < 2 ^ 6" using assms(3) unfolding x by simp
  from round_exponent[OF assms(2) xlt] have sh: "sh = 0 \<or> t \<le> - 47"
    unfolding sh_def t_def by simp
  have err: "\<bar>real q * 2 powi t - real M * 2 powi e\<bar> \<le> 2 powi t / 2"
    unfolding q_def by (rule rounded_error) (simp add: t_def)
  have val: "real q * 2 powi t < 50 \<and> \<bar>real q * 2 powi t - real M * 2 powi e\<bar> \<le> 2 powi (- 48)"
  proof (cases "sh = 0")
    case True
    then have "q = M" "t = e" by (simp_all add: q_def t_def)
    then show ?thesis using assms(3) x by simp
  next
    case False
    with sh have "t \<le> - 47" by simp
    then have "(2::real) powi t \<le> 2 powi (- 47)" by (rule two_powi_mono)
    then have "(2::real) powi t / 2 \<le> 2 powi (- 48)" by (simp add: power_int_minus)
    with err have e48: "\<bar>real q * 2 powi t - real M * 2 powi e\<bar> \<le> 2 powi (- 48)" by simp
    then have "real q * 2 powi t \<le> real M * 2 powi e + 2 powi (- 48)" by linarith
    also have "\<dots> \<le> 50 * (1 - 2 powi (- 53)) + 2 powi (- 48)" using x50 by simp
    also have "\<dots> < 50" by (simp add: power_int_minus)
    finally show ?thesis using e48 by simp
  qed
  have "real q * 2 powi t < 2 ^ 1024"
  proof -
    have "(50::real) < 2 ^ 1024" by simp
    with val show ?thesis by linarith
  qed
  then have fin: "round_double M e = DFinite q t"
    unfolding q_def t_def sh_def
    by (intro round_double_small[OF assms(2) xlt]) simp_all
  have "- 1074 \<le> t" using assms(2) by (simp add: t_def)
  moreover have "d_mult (DFinite m e) (DFinite 50 0) = DFinite q t"
    using fin by (simp add: M_def)
  ultimately show ?thesis using val unfolding x by blast
qed

lemma delay_bounds:
  assumes "- 1074 \<le> t" "real q * 2 powi t < 50" "b \<le> 1150"
  shows "\<exists>q2 t2. d_add (DFinite b 0) (DFinite q t) = DFinite q2 t2 \<and>
     real b \<le> real q2 * 2 powi t2 \<and> real q2 * 2 powi t2 \<le> real b + 50 \<and>
     \<bar>real q2 * 2 powi t2 - (real b + real q * 2 powi t)\<bar> \<le> 2 powi (- 43)"
proof -
  define E where "E = min 0 t"
  define M where "M = b * 2 ^ nat (0 - E) + q * 2 ^ nat (t - E)"
  define sh where "sh = nat (max (int (bit_length M) - 53) (- 1074 - E))"
  define t2 where "t2 = E + int sh"
  define q2 where "q2 = round_shift M sh"
  have E: "- 1074 \<le> E" "E \<le> 0" using assms(1) by (simp_all add: E_def)
  have x: "real M * 2 powi E = real b + real q * 2 powi t"
  proof (cases "0 \<le> t")
    case True
    then have "E = 0" by (simp add: E_def)
    then show ?thesis using True by (simp add: M_def two_powi_nat)
  next
    case False
    then have Et: "E = t" by (simp add: E_def)
    have "real (b * 2 ^ nat (- t)) * 2 powi t = real b"
      using False by (intro grid_value) simp
    then show ?thesis unfolding M_def Et by (simp add: algebra_simps)
  qed
  have b: "real b \<le> 1150" using assms(3) by simp
  have xlt: "real M * 2 powi E < 2 ^ 11" unfolding x using assms(2) b by simp
  from round_exponent[OF E(1) xlt] have sh: "sh = 0 \<or> t2 \<le> - 42"
    unfolding sh_def t2_def by simp
  have t2: "t2 = E + int sh" by (simp add: t2_def)
  have t20: "t2 \<le> 0" using sh E(2) by (auto simp: t2_def)
  have ge: "real b \<le> real q2 * 2 powi t2"
    unfolding q2_def by (rule rounded_ge[OF t2 t20]) (simp add: x)
  have "real M * 2 powi E \<le> real (b + 50)"
    unfolding x using assms(2) by simp
  then have "real q2 * 2 powi t2 \<le> real (b + 50)"
    unfolding q2_def by (rule rounded_le[OF t2 t20])
  then have le: "real q2 * 2 powi t2 \<le> real b + 50" by simp
  have err: "\<bar>real q2 * 2 powi t2 - real M * 2 powi E\<bar> \<le> 2 powi (- 43)"
  proof (cases "sh = 0")
    case True
    then have "q2 = M" "t2 = E" by (simp_all add: q2_def t2_def)
    then show ?thesis by simp
  next
    case False
    with sh have "t2 \<le> - 42" by simp
    then have "(2::real) powi t2 \<le> 2 powi (- 42)" by (rule two_powi_mono)
    then have "(2::real) powi t2 / 2 \<le> 2 powi (- 43)" by (simp add: power_int_minus)
    moreover have "\<bar>real q2 * 2 powi t2 - real M * 2 powi E\<bar> \<le> 2 powi t2 / 2"
      unfolding q2_def by (rule rounded_error[OF t2])
    ultimately show ?thesis by simp
  qed
  have "real q2 * 2 powi t2 < 2 ^ 1024"
  proof -
    have "real b + 50 < (2::real) ^ 1024" using b by simp
    with le show ?thesis by linarith
  qed
  then have fin: "round_double M E = DFinite q2 t2"
    unfolding q2_def t2_def sh_def
    by (intro round_double_small[OF E(1) xlt]) simp_all
  have "d_add (DFinite b 0) (DFinite q t) = DFinite q2 t2"
    using fin by (simp add: M_def E_def Let_def)
  then show ?thesis using ge le err unfolding x by blast
qed

section \<open>The delay of retry n\<close>

lemma backoff_base_delay:
  assumes "1 \<le> n" "n \<le> 6"
  shows "d_min (d_mult (d_pow (DFinite 2 0) n) (DFinite 50 0)) (DFinite 1150 0) =
    DFinite (min (2 ^ n * 50) 1150) 0"
proof -
  from assms have "n = 1 \<or> n = 2 \<or> n = 3 \<or> n = 4 \<or> n = 5 \<or> n = 6" by arith
  then show ?thesis
    by (elim disjE) (simp_all add: d_pow_def round_double_def round_shift_def Let_def)
qed

lemma backoff_unfold:
  assumes "1 \<le> n" "n \<le> 6"
  shows "exponentialBackoff n (DFinite 2 0) (DFinite 50 0) (DFinite 1150 0) (DFinite 50 0) rnd =
    d_add (DFinite (min (2 ^ n * 50) 1150) 0) (d_mult rnd (DFinite 50 0))"
  by (simp add: exponentialBackoff_def Let_def backoff_base_delay[OF assms])

lemma base_delays:
  "map (\<lambda>n. dval (exponentialBackoff n (DFinite 2 0) (DFinite 50 0) (DFinite 1150 0)
                  (DFinite 50 0) (DFinite 0 0))) [1 ..< 7] =
     [100, 200, 400, 800, 1150, 1150]"
  by (simp add: upt_rec exponentialBackoff_def d_pow_def round_double_def round_shift_def Let_def)

lemma backoff_bounds:
  assumes "unit_double rnd" "1 \<le> n" "n \<le> 6"
  defines "jit \<equiv> d_mult rnd (DFinite 50 0)"
  defines "delay \<equiv> exponentialBackoff n (DFinite 2 0) (DFinite 50 0) (DFinite 1150 0)
      (DFinite 50 0) rnd"
  shows "is_finite jit \<and> 0 \<le> dval jit \<and> dval jit < 50 \<and>
    \<bar>dval jit - 50 * dval rnd\<bar> \<le> 2 powi (- 48) \<and>
    is_finite delay \<and>
    \<bar>dval delay - (real (min (2 ^ n * 50) 1150) + dval jit)\<bar> \<le> 2 powi (- 43) \<and>
    real (min (2 ^ n * 50) 1150) \<le> dval delay \<and>
    dval delay \<le> real (min (2 ^ n * 50 + 50) 1200)"
proof -
  obtain m e where rnd: "rnd = DFinite m e" using assms(1) by (cases rnd) simp_all
  with assms(1) have u: "m < 2 ^ 53" "- 1074 \<le> e" "real m * 2 powi e < 1" by simp_all
  from jitter_bounds[OF u] obtain q t where
    j: "jit = DFinite q t" "- 1074 \<le> t" "real q * 2 powi t < 50"
      "\<bar>real q * 2 powi t - 50 * (real m * 2 powi e)\<bar> \<le> 2 powi (- 48)"
    unfolding jit_def rnd by blast
  let ?b = "min (2 ^ n * 50) 1150 :: nat"
  have b: "?b \<le> 1150" by simp
  from delay_bounds[OF j(2,3) b] obtain q2 t2 where
    d: "d_add (DFinite ?b 0) (DFinite q t) = DFinite q2 t2"
      "real ?b \<le> real q2 * 2 powi t2" "real q2 * 2 powi t2 \<le> real ?b + 50"
      "\<bar>real q2 * 2 powi t2 - (real ?b + real q * 2 powi t)\<bar> \<le> 2 powi (- 43)"
    by blast
  have delay: "delay = DFinite q2 t2"
    unfolding delay_def backoff_unfold[OF assms(2,3)] using d(1) j(1) by (simp add: jit_def)
  have up: "real ?b + 50 = real (min (2 ^ n * 50 + 50) 1200)" by (simp add: min_def)
  show ?thesis
    unfolding delay j(1) using j(3,4) d(2,3,4) up by (simp add: rnd)
qed

section \<open>The steps of a delivery\<close>

lemma steps_append [simp]: "steps (xs @ ys) = steps xs @ steps ys"
  by (induction xs rule: steps.induct) auto

lemma rlc_steps:
  "steps (trace (snd (runLifecycleCommand e cn port PostStart cause rc s))) =
     steps (trace s) @
     concat (map (\<lambda>k.
        [Exec (DockerExecWget cn port PostStart cause)
           (execa e (calls s + k) (DockerExecWget cn port PostStart cause)),
         Sleep (exponentialBackoff (rc + k + 1) (DFinite 2 0) (DFinite 50 0)
                  (DFinite 1150 0) (DFinite 50 0) (math_random e (draws s + k)))])
       [0 ..< draws (snd (runLifecycleCommand e cn port PostStart cause rc s)) - draws s]) @
     [Exec (DockerExecWget cn port PostStart cause)
        (execa e (calls s + (draws (snd (runLifecycleCommand e cn port PostStart cause rc s)) - draws s))
           (DockerExecWget cn port PostStart cause))]"
proof (induction rc s rule: rlc_induct[where e = e and cn = cn and port = port
        and type = PostStart and cause = cause])
  case (success rc s r)
  then show ?case by (simp add: rlc_success)
next
  case (retry rc s err)
  let ?c = "DockerExecWget cn port PostStart cause"
  let ?s4 = "after_retry e rc err ?c s"
  let ?s' = "snd (runLifecycleCommand e cn port PostStart cause (rc + 1) ?s4)"
  have le: "draws ?s4 \<le> draws ?s'" using rlc_attempts_draws by blast
  have d4: "draws ?s4 = Suc (draws s)" "calls ?s4 = Suc (calls s)"
    by (simp_all add: after_retry_def)
  from le d4 have n: "draws ?s' - draws s = Suc (draws ?s' - Suc (draws s))" by simp
  have "steps (trace ?s4) = steps (trace s) @
      [Exec ?c (Reject err),
       Sleep (exponentialBackoff (rc + 1) (DFinite 2 0) (DFinite 50 0)
         (DFinite 1150 0) (DFinite 50 0) (math_random e (draws s)))]"
    by (simp add: after_retry_def)
  with retry d4 n show ?case
    by (simp add: rlc_retry map_upt_Suc del: upt_Suc)
next
  case (final rc s err)
  then show ?case by (simp add: rlc_final)
qed

lemma rlc_new_steps:
  "steps (new_events s (snd (runLifecycleCommand e cn port PostStart cause rc s))) =
     concat (map (\<lambda>k.
        [Exec (DockerExecWget cn port PostStart cause)
           (execa e (calls s + k) (DockerExecWget cn port PostStart cause)),
         Sleep (exponentialBackoff (rc + k + 1) (DFinite 2 0) (DFinite 50 0)
                  (DFinite 1150 0) (DFinite 50 0) (math_random e (draws s + k)))])
       [0 ..< draws (snd (runLifecycleCommand e cn port PostStart cause rc s)) - draws s]) @
     [Exec (DockerExecWget cn port PostStart cause)
        (execa e (calls s + (draws (snd (runLifecycleCommand e cn port PostStart cause rc s)) - draws s))
           (DockerExecWget cn port PostStart cause))]"
proof -
  let ?s' = "snd (runLifecycleCommand e cn port PostStart cause rc s)"
  have "steps (trace ?s') = steps (trace s) @ steps (new_events s ?s')"
    by (subst rlc_new_events) simp
  then show ?thesis using rlc_steps[of e cn port cause rc s] by simp
qed

lemma rlc_retries_after_failures:
  "\<forall>k < draws (snd (runLifecycleCommand e cn port PostStart cause rc s)) - draws s.
     \<exists>err. execa e (calls s + k) (DockerExecWget cn port PostStart cause) = Reject err"
proof (induction rc s rule: rlc_induct[where e = e and cn = cn and port = port
        and type = PostStart and cause = cause])
  case (success rc s r)
  then show ?case by (simp add: rlc_success)
next
  case (retry rc s err)
  let ?c = "DockerExecWget cn port PostStart cause"
  let ?s4 = "after_retry e rc err ?c s"
  let ?s' = "snd (runLifecycleCommand e cn port PostStart cause (rc + 1) ?s4)"
  have d4: "draws ?s4 = Suc (draws s)" "calls ?s4 = Suc (calls s)"
    by (simp_all add: after_retry_def)
  show ?case
  proof (intro allI impI)
    fix k assume k: "k < draws (snd (runLifecycleCommand e cn port PostStart cause rc s)) - draws s"
    show "\<exists>err. execa e (calls s + k) ?c = Reject err"
    proof (cases k)
      case 0
      with retry(1) show ?thesis by simp
    next
      case (Suc j)
      with k have "j < draws ?s' - draws ?s4"
        using retry(1,3) by (simp add: rlc_retry d4)
      with retry(4) have "\<exists>err. execa e (calls ?s4 + j) ?c = Reject err" by blast
      with Suc show ?thesis by (simp add: d4)
    qed
  qed
next
  case (final rc s err)
  then show ?case by (simp add: rlc_final)
qed

section \<open>The retry schedule\<close>

text \<open>
  Claim C2, as amended.  A postStart delivery makes at most 6 retries, each after a failed
  attempt, and what it does is: attempt, sleep, attempt, sleep, ... , attempt, with exactly
  one sleep before each retry and none elsewhere; the sleep before retry \<open>n\<close> lasts
  \<open>retry_delay e s n\<close>, which is what \<^verbatim>\<open>exponentialBackoff\<close> returns for exponent \<open>n\<close> and the
  \<open>n\<close>-th value drawn from \<^verbatim>\<open>Math.random()\<close>.  For every retry \<open>n\<close> made, that delay is the
  double sum of \<open>min (2 ^ n * 50) 1150\<close> and a jitter; the jitter is the double product of the
  value drawn and 50, lies in \<open>[0, 50)\<close> and is within \<open>2 ^ - 48\<close> of 50 times the value drawn,
  so it is as uniformly distributed over \<open>[0, 50)\<close> as the values drawn are over \<open>[0, 1)\<close>; the
  delay is within \<open>2 ^ - 43\<close> of base plus jitter and lies between \<open>min (2 ^ n * 50) 1150\<close> and
  \<open>min (2 ^ n * 50 + 50) 1200\<close>, both included.  The successive base delays are 100, 200,
  400, 800, 1150 and 1150 ms: the first retry already waits \<open>2 ^ 1 * 50\<close>, since the source
  passes \<^verbatim>\<open>retryCount + 1\<close> as the exponent.
\<close>

theorem postStart_backoff_schedule:
  assumes "random_in_unit e"
    and "s' = snd (runLifecycleCommand e cn port PostStart cause 0 s)"
    and "m = length (cmds (new_events s s')) - 1"
  shows "m \<le> 6 \<and>
    steps (new_events s s') =
      concat (map (\<lambda>k.
          [Exec (DockerExecWget cn port PostStart cause)
             (execa e (calls s + k) (DockerExecWget cn port PostStart cause)),
           Sleep (retry_delay e s (k + 1))])
        [0 ..< m]) @
      [Exec (DockerExecWget cn port PostStart cause)
         (execa e (calls s + m) (DockerExecWget cn port PostStart cause))] \<and>
    (\<forall>k < m. \<exists>err. execa e (calls s + k) (DockerExecWget cn port PostStart cause) = Reject err) \<and>
    (\<forall>n. 1 \<le> n \<and> n \<le> m \<longrightarrow>
       retry_delay e s n = d_add (DFinite (min (2 ^ n * 50) 1150) 0) (retry_jitter e s n) \<and>
       is_finite (retry_jitter e s n) \<and>
       0 \<le> dval (retry_jitter e s n) \<and> dval (retry_jitter e s n) < 50 \<and>
       \<bar>dval (retry_jitter e s n) - 50 * dval (retry_random e s n)\<bar> \<le> 2 powi (- 48) \<and>
       is_finite (retry_delay e s n) \<and>
       \<bar>dval (retry_delay e s n) -
          (real (min (2 ^ n * 50) 1150) + dval (retry_jitter e s n))\<bar> \<le> 2 powi (- 43) \<and>
       real (min (2 ^ n * 50) 1150) \<le> dval (retry_delay e s n) \<and>
       dval (retry_delay e s n) \<le> real (min (2 ^ n * 50 + 50) 1200)) \<and>
    map (\<lambda>n. dval (exponentialBackoff n (DFinite 2 0) (DFinite 50 0) (DFinite 1150 0)
                  (DFinite 50 0) (DFinite 0 0))) [1 ..< 7] =
      [100, 200, 400, 800, 1150, 1150]"
proof -
  let ?c = "DockerExecWget cn port PostStart cause"
  have a: "calls s' - calls s = Suc (draws s' - draws s)"
    unfolding assms(2) using rlc_attempts_draws by blast
  have m: "m = draws s' - draws s"
    unfolding assms(3) unfolding assms(2) rlc_new_cmds using a by (simp add: assms(2))
  have m6: "m \<le> 6" unfolding m assms(2) by (rule rlc_retries_bound)
  have st: "steps (new_events s s') =
      concat (map (\<lambda>k. [Exec ?c (execa e (calls s + k) ?c), Sleep (retry_delay e s (k + 1))])
        [0 ..< m]) @ [Exec ?c (execa e (calls s + m) ?c)]"
    unfolding m unfolding assms(2) rlc_new_steps
    by (simp add: retry_delay_def retry_random_def)
  have fl: "\<forall>k < m. \<exists>err. execa e (calls s + k) ?c = Reject err"
    unfolding m unfolding assms(2) by (rule rlc_retries_after_failures)
  have b: "retry_delay e s n = d_add (DFinite (min (2 ^ n * 50) 1150) 0) (retry_jitter e s n) \<and>
       is_finite (retry_jitter e s n) \<and>
       0 \<le> dval (retry_jitter e s n) \<and> dval (retry_jitter e s n) < 50 \<and>
       \<bar>dval (retry_jitter e s n) - 50 * dval (retry_random e s n)\<bar> \<le> 2 powi (- 48) \<and>
       is_finite (retry_delay e s n) \<and>
       \<bar>dval (retry_delay e s n) -
          (real (min (2 ^ n * 50) 1150) + dval (retry_jitter e s n))\<bar> \<le> 2 powi (- 43) \<and>
       real (min (2 ^ n * 50) 1150) \<le> dval (retry_delay e s n) \<and>
       dval (retry_delay e s n) \<le> real (min (2 ^ n * 50 + 50) 1200)"
    if n: "1 \<le> n \<and> n \<le> m" for n
  proof -
    have u: "unit_double (retry_random e s n)"
      using assms(1) by (simp add: random_in_unit_def retry_random_def)
    have n1: "1 \<le> n" and n6: "n \<le> 6" using n m6 by simp_all
    show ?thesis
      unfolding retry_delay_def retry_jitter_def
      using backoff_bounds[OF u n1 n6] backoff_unfold[OF n1 n6, of "retry_random e s n"]
      by simp
  qed
  show ?thesis
    using m6 st fl b base_delays by blast
qed

lemma sample_delivery_two_failures:
  "steps (new_events (new_DockerTaskOperations False) (snd (sample_delivery [0, 1]))) =
     [Exec (DockerExecWget ''task-run-run_9'' (Finite 4000) PostStart ''restore'')
        (Reject sample_exit_error),
      Sleep (retry_delay (sample_env [] [0, 1]) (new_DockerTaskOperations False) 1),
      Exec (DockerExecWget ''task-run-run_9'' (Finite 4000) PostStart ''restore'')
        (Reject sample_exit_error),
      Sleep (retry_delay (sample_env [] [0, 1]) (new_DockerTaskOperations False) 2),
      Exec (DockerExecWget ''task-run-run_9'' (Finite 4000) PostStart ''restore'')
        (Resolve (sample_result []))]"
  "length (cmds (new_events (new_DockerTaskOperations False) (snd (sample_delivery [0, 1])))) = 3"
  by (simp_all add: sample_delivery_def rlc_step sample_env_def after_retry_def
      new_DockerTaskOperations_def new_events_def retry_delay_def retry_random_def
      numeral_2_eq_2[symmetric])

lemma sample_env_random_in_unit: "random_in_unit (sample_env out failing)"
  by (simp add: random_in_unit_def sample_env_def)

text \<open>
  Witness for C2: two failed deliveries, then a success.  Two retries are made, each
  after its sleep, and the second sleep lasts between 200 and 250 ms.
\<close>

theorem postStart_backoff_schedule_witness:
  "random_in_unit (sample_env [] [0, 1]) \<and>
   length (cmds (new_events (new_DockerTaskOperations False) (snd (sample_delivery [0, 1])))) - 1 = 2 \<and>
   steps (new_events (new_DockerTaskOperations False) (snd (sample_delivery [0, 1]))) =
     [Exec (DockerExecWget ''task-run-run_9'' (Finite 4000) PostStart ''restore'')
        (Reject sample_exit_error),
      Sleep (retry_delay (sample_env [] [0, 1]) (new_DockerTaskOperations False) 1),
      Exec (DockerExecWget ''task-run-run_9'' (Finite 4000) PostStart ''restore'')
        (Reject sample_exit_error),
      Sleep (retry_delay (sample_env [] [0, 1]) (new_DockerTaskOperations False) 2),
      Exec (DockerExecWget ''task-run-run_9'' (Finite 4000) PostStart ''restore'')
        (Resolve (sample_result []))] \<and>
   200 \<le> dval (retry_delay (sample_env [] [0, 1]) (new_DockerTaskOperations False) 2) \<and>
   dval (retry_delay (sample_env [] [0, 1]) (new_DockerTaskOperations False) 2) \<le> 250 \<and>
   dval (retry_jitter (sample_env [] [0, 1]) (new_DockerTaskOperations False) 2) < 50"
proof -
  have s': "snd (sample_delivery [0, 1]) =
      snd (runLifecycleCommand (sample_env [] [0, 1]) ''task-run-run_9'' (Finite 4000) PostStart
        ''restore'' 0 (new_DockerTaskOperations False))"
    by (simp add: sample_delivery_def)
  have m: "(2::nat) = length (cmds (new_events (new_DockerTaskOperations False)
      (snd (sample_delivery [0, 1])))) - 1"
    unfolding sample_delivery_two_failures(2) by simp
  have c: "calls (new_DockerTaskOperations False) = 0"
    by (simp add: new_DockerTaskOperations_def)
  have x: "execa (sample_env out failing) k c =
      (if k \<in> set failing then Reject sample_exit_error else Resolve (sample_result out))"
    for out failing k c
    by (simp add: sample_env_def)
  note t = postStart_backoff_schedule[OF sample_env_random_in_unit s' m]
  note t1 = t[THEN conjunct2, THEN conjunct1]
  note t2 = t[THEN conjunct2, THEN conjunct2, THEN conjunct2, THEN conjunct1, rule_format, of 2,
      THEN conjunct2]
  have st: "steps (new_events (new_DockerTaskOperations False) (snd (sample_delivery [0, 1]))) =
     [Exec (DockerExecWget ''task-run-run_9'' (Finite 4000) PostStart ''restore'')
        (Reject sample_exit_error),
      Sleep (retry_delay (sample_env [] [0, 1]) (new_DockerTaskOperations False) 1),
      Exec (DockerExecWget ''task-run-run_9'' (Finite 4000) PostStart ''restore'')
        (Reject sample_exit_error),
      Sleep (retry_delay (sample_env [] [0, 1]) (new_DockerTaskOperations False) 2),
      Exec (DockerExecWget ''task-run-run_9'' (Finite 4000) PostStart ''restore'')
        (Resolve (sample_result []))]"
    unfolding t1 by (simp add: c x upt_rec numeral_2_eq_2[symmetric])
  from t2 have bd:
    "200 \<le> dval (retry_delay (sample_env [] [0, 1]) (new_DockerTaskOperations False) 2) \<and>
     dval (retry_delay (sample_env [] [0, 1]) (new_DockerTaskOperations False) 2) \<le> 250 \<and>
     dval (retry_jitter (sample_env [] [0, 1]) (new_DockerTaskOperations False) 2) < 50"
    by simp
  from sample_env_random_in_unit m[symmetric] st bd show ?thesis
    by blast
qed

lemma sample_delivery_six_failures:
  "map dval (sleeps (trace (snd (sample_delivery [0, 1, 2, 3, 4, 5])))) =
     [100, 200, 400, 800, 1150, 1150]"
  by (simp add: sample_delivery_def rlc_step sample_env_def after_retry_def
      new_DockerTaskOperations_def exponentialBackoff_def d_pow_def round_double_def
      round_shift_def Let_def)

lemma largest_random: "unit_double (DFinite (2 ^ 53 - 1) (- 53))"
proof -
  have "real (2 ^ 53 - 1 :: nat) * 2 powi (- 53) < 2 ^ 53 * 2 powi (- 53)"
    by (intro mult_strict_right_mono) simp_all
  also have "\<dots> = 1" by (simp add: power_int_minus)
  finally show ?thesis by simp
qed

lemma largest_random_delay:
  "dval (exponentialBackoff 1 (DFinite 2 0) (DFinite 50 0) (DFinite 1150 0) (DFinite 50 0)
     (DFinite (2 ^ 53 - 1) (- 53))) = 150"
  by (simp add: exponentialBackoff_def d_pow_def round_double_def round_shift_def Let_def)

text \<open>
  Counterexample to C2 as stated: with six failed deliveries and no jitter the delays are
  100, 200, 400, 800, 1150, 1150 ms, not the 50, 100, 200, 400, 800, 1150 ms of the claim;
  and with the largest double below 1 for \<^verbatim>\<open>Math.random()\<close> the first delay is 150 ms, which
  is not \<open>100\<close> plus a jitter below 50.
\<close>

theorem postStart_base_delays_counterexample:
  "map dval (sleeps (trace (snd (sample_delivery [0, 1, 2, 3, 4, 5])))) =
     [100, 200, 400, 800, 1150, 1150] \<and>
   map dval (sleeps (trace (snd (sample_delivery [0, 1, 2, 3, 4, 5])))) \<noteq>
     [50, 100, 200, 400, 800, 1150] \<and>
   unit_double (DFinite (2 ^ 53 - 1) (- 53)) \<and>
   dval (exponentialBackoff 1 (DFinite 2 0) (DFinite 50 0) (DFinite 1150 0) (DFinite 50 0)
     (DFinite (2 ^ 53 - 1) (- 53))) = 150"
  unfolding sample_delivery_six_failures largest_random_delay
  using largest_random by simp

section \<open>index and create\<close>

text \<open>
  Claim C6, as amended.  When the \<^verbatim>\<open>docker run\<close> of \<^verbatim>\<open>index\<close> (likewise of \<^verbatim>\<open>create\<close>) rejects
  with an object that has the property \<^verbatim>\<open>escapedCommand\<close>, the operation returns normally and
  the last thing it did is to log, at error level, the options and the \<^verbatim>\<open>exitCode\<close>,
  \<^verbatim>\<open>escapedCommand\<close>, \<^verbatim>\<open>stdout\<close> and \<^verbatim>\<open>stderr\<close> of that object.  In every case the operation
  returns normally unless the command rejects with a value that is no such object, which is
  then thrown to the caller.  The errors \<^verbatim>\<open>execa\<close> builds all carry \<^verbatim>\<open>escapedCommand\<close>, those
  for a command that could not be started included: with such a runner neither operation
  ever throws, so that a failure to start the command is logged, not propagated.
\<close>

theorem index_create_workload_failure_logged:
  "(index_outcome e opts s = Reject error \<and> isExecaChildProcess error \<longrightarrow>
      fst (index e opts s) = Inr () \<and>
      last (trace (snd (index e opts s))) =
        Log ErrorLevel [JStr ''Index failed:'',
          JObj [(''opts'', index_opts_obj opts),
                (''exitCode'', get_prop error ''exitCode''),
                (''escapedCommand'', get_prop error ''escapedCommand''),
                (''stdout'', get_prop error ''stdout''),
                (''stderr'', get_prop error ''stderr'')]]) \<and>
   fst (index e opts s) =
     (case index_outcome e opts s of
        Resolve r \<Rightarrow> Inr ()
      | Reject v \<Rightarrow> if isExecaChildProcess v then Inr () else Inl v) \<and>
   (create_outcome e copts s = Reject error \<and> isExecaChildProcess error \<longrightarrow>
      fst (create e copts s) = Inr () \<and>
      last (trace (snd (create e copts s))) =
        Log ErrorLevel [JStr ''Create failed:'',
          JObj [(''opts'', create_opts_obj copts),
                (''exitCode'', get_prop error ''exitCode''),
                (''escapedCommand'', get_prop error ''escapedCommand''),
                (''stdout'', get_prop error ''stdout''),
                (''stderr'', get_prop error ''stderr'')]]) \<and>
   fst (create e copts s) =
     (case create_outcome e copts s of
        Resolve r \<Rightarrow> Inr ()
      | Reject v \<Rightarrow> if isExecaChildProcess v then Inr () else Inl v) \<and>
   (rejects_with_child_process e \<longrightarrow>
      fst (index e opts s) = Inr () \<and> fst (create e copts s) = Inr ())"
proof -
  have i: "index e opts s =
        (let s3 = (snd (initialize e s))
               \<lparr>calls := Suc (calls (snd (initialize e s))),
                trace := trace (snd (initialize e s)) @
                  [Log LogLevel [JStr (''Indexing task '' @ imageRef opts),
                     JObj [(''host'', JStr (COORDINATOR_HOST e)), (''port'', COORDINATOR_PORT e)]],
                   Exec (index_cmd opts) (index_outcome e opts s)]\<rparr>
         in case index_outcome e opts s of
              Resolve r \<Rightarrow> (Inr (), logger DebugLevel [result_obj r] s3)
            | Reject error \<Rightarrow>
                if \<not> isExecaChildProcess error then (Inl error, s3)
                else (Inr (), logger ErrorLevel
                    [JStr ''Index failed:'', failure_report (index_opts_obj opts) error] s3))"
    by (cases "initialize e s"; cases "index_outcome e opts s")
       (simp_all add: index_def index_outcome_def index_cmd_def run_def logger_def Let_def)
  have c: "create e copts s =
        (let s2 = (snd (initialize e s))
               \<lparr>calls := Suc (calls (snd (initialize e s))),
                trace := trace (snd (initialize e s)) @
                  [Exec (create_cmd copts) (create_outcome e copts s)]\<rparr>
         in case create_outcome e copts s of
              Resolve r \<Rightarrow> (Inr (), logger DebugLevel [result_obj r] s2)
            | Reject error \<Rightarrow>
                if \<not> isExecaChildProcess error then (Inl error, s2)
                else (Inr (), logger ErrorLevel
                    [JStr ''Create failed:'', failure_report (create_opts_obj copts) error] s2))"
    by (cases "initialize e s"; cases "create_outcome e copts s")
       (simp_all add: create_def create_outcome_def create_cmd_def run_def logger_def Let_def)
  have fi: "fst (index e opts s) =
     (case index_outcome e opts s of
        Resolve r \<Rightarrow> Inr ()
      | Reject v \<Rightarrow> if isExecaChildProcess v then Inr () else Inl v)"
    by (subst i) (simp add: Let_def split: outcome.splits)
  have fc: "fst (create e copts s) =
     (case create_outcome e copts s of
        Resolve r \<Rightarrow> Inr ()
      | Reject v \<Rightarrow> if isExecaChildProcess v then Inr () else Inl v)"
    by (subst c) (simp add: Let_def split: outcome.splits)
  have li: "last (trace (snd (index e opts s))) =
        Log ErrorLevel [JStr ''Index failed:'',
          JObj [(''opts'', index_opts_obj opts),
                (''exitCode'', get_prop error ''exitCode''),
                (''escapedCommand'', get_prop error ''escapedCommand''),
                (''stdout'', get_prop error ''stdout''),
                (''stderr'', get_prop error ''stderr'')]]"
    if "index_outcome e opts s = Reject error" "isExecaChildProcess error"
    by (subst i) (simp add: that Let_def logger_def failure_report_def)
  have lc: "last (trace (snd (create e copts s))) =
        Log ErrorLevel [JStr ''Create failed:'',
          JObj [(''opts'', create_opts_obj copts),
                (''exitCode'', get_prop error ''exitCode''),
                (''escapedCommand'', get_prop error ''escapedCommand''),
                (''stdout'', get_prop error ''stdout''),
                (''stderr'', get_prop error ''stderr'')]]"
    if "create_outcome e copts s = Reject error" "isExecaChildProcess error"
    by (subst c) (simp add: that Let_def logger_def failure_report_def)
  have ri: "fst (index e opts s) = Inr ()" if "rejects_with_child_process e"
    unfolding fi using that
    by (auto simp: rejects_with_child_process_def index_outcome_def split: outcome.splits)
  have rc: "fst (create e copts s) = Inr ()" if "rejects_with_child_process e"
    unfolding fc using that
    by (auto simp: rejects_with_child_process_def create_outcome_def split: outcome.splits)
  have ai: "fst (index e opts s) = Inr ()"
    if "index_outcome e opts s = Reject error" "isExecaChildProcess error"
    unfolding fi by (simp add: that)
  have ac: "fst (create e copts s) = Inr ()"
    if "create_outcome e copts s = Reject error" "isExecaChildProcess error"
    unfolding fc by (simp add: that)
  from fi fc li lc ri rc ai ac show ?thesis by blast
qed

lemma sample_exit_error_is_child_process: "isExecaChildProcess sample_exit_error"
  by (simp add: isExecaChildProcess_def sample_exit_error_def)

lemma launch_failure_is_child_process: "isExecaChildProcess launch_failure_error"
  by (simp add: isExecaChildProcess_def launch_failure_error_def)

lemma sample_index_outcome:
  "index_outcome (sample_env out [2]) sample_index_opts (new_DockerTaskOperations True) =
     Reject sample_exit_error"
  by (simp add: index_outcome_def sample_initialize) (simp add: sample_env_def)

lemma sample_create_outcome:
  "create_outcome (sample_env out [2]) sample_create_opts (new_DockerTaskOperations True) =
     Reject sample_exit_error"
  by (simp add: create_outcome_def sample_initialize) (simp add: sample_env_def)

lemma missing_binary_outcomes:
  "index_outcome missing_binary_env opts s = Reject launch_failure_error"
  "create_outcome missing_binary_env copts s = Reject launch_failure_error"
  by (simp_all add: index_outcome_def create_outcome_def missing_binary_env_def)

lemma missing_binary_rejects: "rejects_with_child_process missing_binary_env"
  by (simp add: rejects_with_child_process_def missing_binary_env_def
      launch_failure_is_child_process)

text \<open>
  Witness for C6: a container that exits with code 1, and a machine on which the command
  cannot be started.
\<close>

theorem index_create_workload_failure_logged_witness:
  "index_outcome (sample_env [] [2]) sample_index_opts (new_DockerTaskOperations True) =
     Reject sample_exit_error \<and>
   isExecaChildProcess sample_exit_error \<and>
   fst (index (sample_env [] [2]) sample_index_opts (new_DockerTaskOperations True)) = Inr () \<and>
   last (trace (snd (index (sample_env [] [2]) sample_index_opts (new_DockerTaskOperations True)))) =
     Log ErrorLevel [JStr ''Index failed:'',
       JObj [(''opts'', index_opts_obj sample_index_opts), (''exitCode'', JNum 1),
             (''escapedCommand'', JStr ''docker''), (''stdout'', JStr []),
             (''stderr'', JStr ''boom'')]] \<and>
   create_outcome (sample_env [] [2]) sample_create_opts (new_DockerTaskOperations True) =
     Reject sample_exit_error \<and>
   fst (create (sample_env [] [2]) sample_create_opts (new_DockerTaskOperations True)) = Inr () \<and>
   last (trace (snd (create (sample_env [] [2]) sample_create_opts (new_DockerTaskOperations True)))) =
     Log ErrorLevel [JStr ''Create failed:'',
       JObj [(''opts'', create_opts_obj sample_create_opts), (''exitCode'', JNum 1),
             (''escapedCommand'', JStr ''docker''), (''stdout'', JStr []),
             (''stderr'', JStr ''boom'')]] \<and>
   rejects_with_child_process missing_binary_env \<and>
   fst (index missing_binary_env sample_index_opts (new_DockerTaskOperations True)) = Inr () \<and>
   fst (create missing_binary_env sample_create_opts (new_DockerTaskOperations True)) = Inr ()"
proof -
  have g: "get_prop sample_exit_error ''exitCode'' = JNum 1"
    "get_prop sample_exit_error ''escapedCommand'' = JStr ''docker''"
    "get_prop sample_exit_error ''stdout'' = JStr []"
    "get_prop sample_exit_error ''stderr'' = JStr ''boom''"
    by (simp_all add: sample_exit_error_def)
  note T = index_create_workload_failure_logged[of "sample_env [] [2]" sample_index_opts
      "new_DockerTaskOperations True" sample_exit_error sample_create_opts]
  note ti = T[THEN conjunct1, rule_format,
      OF conjI[OF sample_index_outcome sample_exit_error_is_child_process]]
  note tc = T[THEN conjunct2, THEN conjunct2, THEN conjunct1, rule_format,
      OF conjI[OF sample_create_outcome sample_exit_error_is_child_process]]
  note a = ti[THEN conjunct1] ti[THEN conjunct2, unfolded g]
    tc[THEN conjunct1] tc[THEN conjunct2, unfolded g]
  note b = index_create_workload_failure_logged[of missing_binary_env sample_index_opts
      "new_DockerTaskOperations True" launch_failure_error sample_create_opts,
      THEN conjunct2, THEN conjunct2, THEN conjunct2, THEN conjunct2, rule_format,
      OF missing_binary_rejects]
  from a b sample_index_outcome[of "[]"] sample_create_outcome[of "[]"]
    sample_exit_error_is_child_process missing_binary_rejects
  show ?thesis by blast
qed

lemma missing_binary_index:
  "fst (index missing_binary_env sample_index_opts (new_DockerTaskOperations True)) = Inr ()"
  "last (trace (snd (index missing_binary_env sample_index_opts (new_DockerTaskOperations True)))) =
     Log ErrorLevel [JStr ''Index failed:'',
       JObj [(''opts'', index_opts_obj sample_index_opts), (''exitCode'', JUndefined),
             (''escapedCommand'', JStr ''docker''), (''stdout'', JStr []),
             (''stderr'', JStr [])]]"
  by (simp_all add: index_def initialize_def run_def logger_def Let_def missing_binary_env_def
      new_DockerTaskOperations_def getInitializeReturn_def launch_failure_is_child_process
      failure_report_def, simp_all add: launch_failure_error_def)

lemma missing_binary_create:
  "fst (create missing_binary_env sample_create_opts (new_DockerTaskOperations True)) = Inr ()"
  by (simp add: create_def initialize_def run_def logger_def Let_def missing_binary_env_def
      new_DockerTaskOperations_def getInitializeReturn_def launch_failure_is_child_process)

text \<open>
  Counterexample to C6 as stated: on a machine without the binary the \<^verbatim>\<open>docker run\<close> of
  \<^verbatim>\<open>index\<close> and of \<^verbatim>\<open>create\<close> cannot be started, \<^verbatim>\<open>execa\<close> rejects with its error for that, and
  the operation logs it (without an exit code) and returns normally: the failure does not
  reach the caller.
\<close>

theorem launch_failure_not_propagated_counterexample:
  "index_outcome missing_binary_env sample_index_opts (new_DockerTaskOperations True) =
     Reject launch_failure_error \<and>
   get_prop launch_failure_error ''exitCode'' = JUndefined \<and>
   fst (index missing_binary_env sample_index_opts (new_DockerTaskOperations True)) = Inr () \<and>
   fst (index missing_binary_env sample_index_opts (new_DockerTaskOperations True)) \<noteq>
     Inl launch_failure_error \<and>
   last (trace (snd (index missing_binary_env sample_index_opts (new_DockerTaskOperations True)))) =
     Log ErrorLevel [JStr ''Index failed:'',
       JObj [(''opts'', index_opts_obj sample_index_opts), (''exitCode'', JUndefined),
             (''escapedCommand'', JStr ''docker''), (''stdout'', JStr []),
             (''stderr'', JStr [])]] \<and>
   create_outcome missing_binary_env sample_create_opts (new_DockerTaskOperations True) =
     Reject launch_failure_error \<and>
   fst (create missing_binary_env sample_create_opts (new_DockerTaskOperations True)) = Inr () \<and>
   fst (create missing_binary_env sample_create_opts (new_DockerTaskOperations True)) \<noteq>
     Inl launch_failure_error"
  unfolding missing_binary_index missing_binary_create missing_binary_outcomes
  by (simp add: launch_failure_error_def)

end
